theory Spec2Isabelle
  imports Main
begin

unbundle bit_operations_syntax

section \<open>The execution engine of the mini shell\<close>

text \<open>
  The repository holds two variants of the engine: \<^verbatim>\<open>src/cmd.c\<close> and a second file of
  unknown name (called \<^verbatim>\<open>part_000\<close> here). The definitions that embed \<^verbatim>\<open>src/cmd.c\<close>
  keep the names of the C functions; the definitions that embed \<^verbatim>\<open>part_000\<close> carry the
  prefix \<open>p0_\<close>.

  The operating system is not part of the repository. It enters the model as a
  parameter: a record of functions over an abstract world \<open>'w\<close> that decide whether
  \<^verbatim>\<open>open\<close>, \<^verbatim>\<open>pipe\<close>, \<^verbatim>\<open>fork\<close>, \<^verbatim>\<open>execvp\<close> and \<^verbatim>\<open>chdir\<close> succeed and what they do to the
  world. The descriptor table, the working directory, the environment and the table
  of children that were not waited for are the state of the shell process and are
  modelled explicitly.
\<close>

subsection \<open>Data of the parser (\<^verbatim>\<open>parser.h\<close>, not in the repository)\<close>

text \<open>
  A \<^verbatim>\<open>word_t *\<close> is modelled by the address of the word and the string that
  \<^verbatim>\<open>get_word\<close> resolves it to; \<^verbatim>\<open>NULL\<close> is \<open>None\<close>. The chain \<^verbatim>\<open>next_word\<close> of the
  parameters is a list. Pointer equality is equality of addresses.
\<close>

record word_t =
  w_addr :: nat
  w_text :: string

record simple_command_t =
  verb :: "word_t option"
  params :: "word_t list"
  inp :: "word_t option"
  out :: "word_t option"
  err :: "word_t option"
  io_flags :: int

datatype operator_t =
  OP_NONE | OP_SEQUENTIAL | OP_PARALLEL | OP_CONDITIONAL_NZERO | OP_CONDITIONAL_ZERO
  | OP_PIPE | OP_DUMMY

text \<open>
  A \<^verbatim>\<open>command_t *\<close>: \<open>Null\<close> is the null pointer; the fields of \<open>Command\<close> are \<^verbatim>\<open>op\<close>,
  \<^verbatim>\<open>scmd\<close>, \<^verbatim>\<open>cmd1\<close> and \<^verbatim>\<open>cmd2\<close>, in this order.
\<close>

datatype command_t =
  Null
  | Command operator_t "simple_command_t option" command_t command_t

definition ptr_eq :: "word_t option \<Rightarrow> word_t option \<Rightarrow> bool" where
  "ptr_eq p q \<longleftrightarrow> map_option w_addr p = map_option w_addr q"

text \<open>
  Modelled from the spec: \<^verbatim>\<open>get_word\<close> and \<^verbatim>\<open>get_argv\<close> live in \<^verbatim>\<open>utils.c\<close>, which is
  not in the repository. The spec exposes them as the opaque operation "resolve word
  to string" and as "resolve verb and all args to strings up front".
\<close>

definition get_word :: "word_t option \<Rightarrow> string option" where
  "get_word w = map_option w_text w"

definition get_argv :: "simple_command_t \<Rightarrow> string list" where
  "get_argv s = (case get_word (verb s) of None \<Rightarrow> [] | Some v \<Rightarrow> [v]) @ map w_text (params s)"

subsection \<open>Results, events and the state of the process\<close>

text \<open>
  A C function of the engine either returns, or ends the process with \<^verbatim>\<open>exit\<close>, or
  runs into undefined behaviour (a null pointer handed to \<^verbatim>\<open>strcmp\<close>, \<^verbatim>\<open>strlen\<close> or
  dereferenced).
\<close>

datatype 'a outcome = Returns 'a | Exits int | Undefined

datatype oflag = O_RDONLY | O_WRONLY | O_CREAT | O_APPEND | O_TRUNC

datatype event =
  Open string "oflag set" int
  | Perror string
  | Printf string
  | Forked nat
  | Waited nat int

text \<open>
  The parameters of the model: the system calls whose result the process cannot
  compute from its own state, and the constants of the missing headers.
  \<^item> \<open>k_open w cwd path flags\<close>: \<open>None\<close> when the file cannot be opened, else the open
    file description and the new world;
  \<^item> \<open>k_pipe w\<close>: read end, write end and the new world;
  \<^item> \<open>k_fork w\<close>: the pid of the child and the new world;
  \<^item> \<open>k_exec w fds cwd env file argv\<close>: \<open>None\<close> when \<^verbatim>\<open>execvp\<close> returns, else the wait
    status the program image ends with and the world it leaves;
  \<^item> \<open>k_chdir w cwd path\<close>: the new working directory.
\<close>

record 'w platform =
  k_open :: "'w \<Rightarrow> string \<Rightarrow> string \<Rightarrow> oflag set \<Rightarrow> (nat \<times> 'w) option"
  k_pipe :: "'w \<Rightarrow> (nat \<times> nat \<times> 'w) option"
  k_fork :: "'w \<Rightarrow> (nat \<times> 'w) option"
  k_exec :: "'w \<Rightarrow> nat option list \<Rightarrow> string \<Rightarrow> (string \<rightharpoonup> string) \<Rightarrow> string \<Rightarrow> string list
               \<Rightarrow> (int \<times> 'w) option"
  k_chdir :: "'w \<Rightarrow> string \<Rightarrow> string \<Rightarrow> string option"
  SHELL_EXIT :: int
  IO_OUT_APPEND :: int
  IO_ERR_APPEND :: int

text \<open>
  \<open>fdt\<close> is the descriptor table: entry \<open>n\<close> is the open file description descriptor
  \<open>n\<close> is bound to; its length is the limit on open descriptors. \<open>kids\<close> lists the
  children that were forked and not yet waited for, the youngest first, each with
  the wait status it ends with. \<open>trace\<close> records what the process (and the children
  it waited for or left behind) did, oldest first.
\<close>

record 'w shell =
  fdt :: "nat option list"
  cwd :: string
  env :: "string \<rightharpoonup> string"
  kids :: "(nat \<times> int) list"
  trace :: "event list"
  world :: 'w

definition STDIN_FILENO :: int where "STDIN_FILENO = 0"
definition STDOUT_FILENO :: int where "STDOUT_FILENO = 1"
definition STDERR_FILENO :: int where "STDERR_FILENO = 2"

subsection \<open>System and library calls\<close>

definition log :: "event \<Rightarrow> 'w shell \<Rightarrow> 'w shell" where
  "log e s = s\<lparr>trace := trace s @ [e]\<rparr>"

definition perror :: "string \<Rightarrow> 'w shell \<Rightarrow> 'w shell" where
  "perror msg s = log (Perror msg) s"

definition printf :: "string \<Rightarrow> 'w shell \<Rightarrow> 'w shell" where
  "printf msg s = log (Printf msg) s"

definition valid_fd :: "int \<Rightarrow> 'w shell \<Rightarrow> bool" where
  "valid_fd fd s \<longleftrightarrow> 0 \<le> fd \<and> nat fd < length (fdt s) \<and> fdt s ! nat fd \<noteq> None"

fun lowest_free :: "nat option list \<Rightarrow> nat option" where
  "lowest_free [] = None"
| "lowest_free (x # xs) = (case x of None \<Rightarrow> Some 0 | Some _ \<Rightarrow> map_option Suc (lowest_free xs))"

definition sys_close :: "int \<Rightarrow> 'w shell \<Rightarrow> int \<times> 'w shell" where
  "sys_close fd s =
     (if valid_fd fd s then (0, s\<lparr>fdt := (fdt s)[nat fd := None]\<rparr>) else (- 1, s))"

definition sys_dup2 :: "int \<Rightarrow> int \<Rightarrow> 'w shell \<Rightarrow> int \<times> 'w shell" where
  "sys_dup2 oldfd newfd s =
     (if valid_fd oldfd s \<and> 0 \<le> newfd \<and> nat newfd < length (fdt s)
      then (newfd, s\<lparr>fdt := (fdt s)[nat newfd := fdt s ! nat oldfd]\<rparr>)
      else (- 1, s))"

definition sys_dup :: "int \<Rightarrow> 'w shell \<Rightarrow> int \<times> 'w shell" where
  "sys_dup fd s =
     (if valid_fd fd s
      then (case lowest_free (fdt s) of
              None \<Rightarrow> (- 1, s)
            | Some i \<Rightarrow> (int i, s\<lparr>fdt := (fdt s)[i := fdt s ! nat fd]\<rparr>))
      else (- 1, s))"

definition sys_open :: "'w platform \<Rightarrow> string \<Rightarrow> oflag set \<Rightarrow> 'w shell \<Rightarrow> int \<times> 'w shell" where
  "sys_open k path flags s =
     (case lowest_free (fdt s) of
        None \<Rightarrow> (- 1, log (Open path flags (- 1)) s)
      | Some i \<Rightarrow>
          (case k_open k (world s) (cwd s) path flags of
             None \<Rightarrow> (- 1, log (Open path flags (- 1)) s)
           | Some (d, w) \<Rightarrow>
               (int i, log (Open path flags (int i)) (s\<lparr>fdt := (fdt s)[i := Some d], world := w\<rparr>))))"

definition sys_pipe :: "'w platform \<Rightarrow> 'w shell \<Rightarrow> int \<times> (int \<times> int) \<times> 'w shell" where
  "sys_pipe k s =
     (case lowest_free (fdt s) of
        None \<Rightarrow> (- 1, (0, 0), s)
      | Some i \<Rightarrow>
          (case lowest_free ((fdt s)[i := Some 0]) of
             None \<Rightarrow> (- 1, (0, 0), s)
           | Some j \<Rightarrow>
               (case k_pipe k (world s) of
                  None \<Rightarrow> (- 1, (0, 0), s)
                | Some (rd, wr, w) \<Rightarrow>
                    (0, (int i, int j),
                     s\<lparr>fdt := (fdt s)[i := Some rd, j := Some wr], world := w\<rparr>))))"

definition sys_chdir :: "'w platform \<Rightarrow> string \<Rightarrow> 'w shell \<Rightarrow> int \<times> 'w shell" where
  "sys_chdir k path s =
     (case k_chdir k (world s) (cwd s) path of
        None \<Rightarrow> (- 1, s)
      | Some d \<Rightarrow> (0, s\<lparr>cwd := d\<rparr>))"

text \<open>
  \<^verbatim>\<open>setenv\<close>: a null or empty name, or one with \<^verbatim>\<open>=\<close> in it, is the error \<^verbatim>\<open>EINVAL\<close>; a
  null value is undefined behaviour (the C library takes its length).
\<close>

definition sys_setenv :: "string option \<Rightarrow> string option \<Rightarrow> int \<Rightarrow> 'w shell \<Rightarrow> int outcome \<times> 'w shell" where
  "sys_setenv name val overwrite s =
     (case name of
        None \<Rightarrow> (Returns (- 1), s)
      | Some n \<Rightarrow>
          if n = [] \<or> CHR ''='' \<in> set n then (Returns (- 1), s)
          else (case val of
                  None \<Rightarrow> (Undefined, s)
                | Some v \<Rightarrow>
                    if overwrite = 0 \<and> env s n \<noteq> None then (Returns 0, s)
                    else (Returns 0, s\<lparr>env := (env s)(n \<mapsto> v)\<rparr>)))"

text \<open>
  \<^verbatim>\<open>strtok_r\<close>: skip the leading delimiters; no character left gives \<^verbatim>\<open>NULL\<close>; else the
  token runs to the next delimiter, and the scan resumes after that delimiter. The
  result is the token and the saved position.
\<close>

definition strtok_r :: "string \<Rightarrow> string \<Rightarrow> string option \<times> string" where
  "strtok_r str delim =
     (let s1 = dropWhile (\<lambda>c. c \<in> set delim) str in
      if s1 = [] then (None, [])
      else (Some (takeWhile (\<lambda>c. c \<notin> set delim) s1),
            drop 1 (dropWhile (\<lambda>c. c \<notin> set delim) s1)))"

text \<open>
  \<^verbatim>\<open>fork\<close>: the child starts as a copy of the parent with no children of its own. The
  model runs the child to its end at the fork (one of the schedules the system may
  choose); what the child did to the world and to the trace stays, its descriptor
  table, directory and environment are its own and are dropped. \<^verbatim>\<open>exit(v)\<close> leaves the
  wait status with \<open>v\<close>'s low byte in bits 8 to 15.
\<close>

definition child_of :: "'w shell \<Rightarrow> nat \<Rightarrow> 'w \<Rightarrow> 'w shell" where
  "child_of s pid w = (log (Forked pid) s)\<lparr>kids := [], world := w\<rparr>"

definition exited_with :: "int \<Rightarrow> int" where
  "exited_with v = (v mod 256) * 256"

definition WEXITSTATUS :: "int \<Rightarrow> int" where
  "WEXITSTATUS status = (status div 256) mod 256"

definition after_child :: "nat \<Rightarrow> int \<Rightarrow> 'w shell \<Rightarrow> 'w shell \<Rightarrow> 'w shell" where
  "after_child pid status c s =
     s\<lparr>kids := (pid, status) # kids s, trace := trace c, world := world c\<rparr>"

text \<open>
  \<^verbatim>\<open>waitpid(pid, &status, 0)\<close>: the youngest child with that pid is removed from the
  table and its status is stored; with no such child nothing is stored.
\<close>

definition sys_waitpid :: "nat \<Rightarrow> 'w shell \<Rightarrow> int option \<times> 'w shell" where
  "sys_waitpid pid s =
     (case map_of (kids s) pid of
        None \<Rightarrow> (None, s)
      | Some status \<Rightarrow>
          (Some status, log (Waited pid status) (s\<lparr>kids := remove1 (pid, status) (kids s)\<rparr>)))"

text \<open>
  The wait status of a child that ends with \<^verbatim>\<open>exit(parse_command(...))\<close>, or with an
  \<^verbatim>\<open>exit\<close> inside the evaluation; none when the evaluation is undefined. External
  programs and children are taken to terminate: the engine has no timeout, a parent
  that waits for a child that never ends never returns.
\<close>

definition exit_of :: "int outcome \<Rightarrow> int option" where
  "exit_of r = (case r of Returns v \<Rightarrow> Some (exited_with v) | Exits v \<Rightarrow> Some (exited_with v)
                | Undefined \<Rightarrow> None)"

section \<open>The variant \<^verbatim>\<open>src/cmd.c\<close>\<close>

text \<open>
  The parameters \<^verbatim>\<open>level\<close> and \<^verbatim>\<open>father\<close> of the C functions are never read and are left
  out. \<^verbatim>\<open>free\<close> has no effect on the modelled state and is left out too.
\<close>

definition parse_environment_variable :: "string option \<Rightarrow> 'w shell \<Rightarrow> unit outcome \<times> 'w shell" where
  "parse_environment_variable command s =
     (case command of
        None \<Rightarrow> (Returns (), s)
      | Some c \<Rightarrow>
          (let (name, saveptr) = strtok_r c ''='';
               (val, saveptr) = strtok_r saveptr ''=''
           in case sys_setenv name val 1 s of
                (Undefined, s1) \<Rightarrow> (Undefined, s1)
              | (_, s1) \<Rightarrow> (Returns (), s1)))"

definition shell_cd :: "'w platform \<Rightarrow> word_t list \<Rightarrow> 'w shell \<Rightarrow> bool \<times> 'w shell" where
  "shell_cd k dir s =
     (case dir of
        [] \<Rightarrow> (False, s)
      | d # next_word \<Rightarrow>
          if next_word \<noteq> [] then (False, s)
          else (let path = w_text d in
                case sys_chdir k path s of
                  (r, s1) \<Rightarrow> if r \<noteq> 0 then (False, perror ''cd'' s1) else (True, s1)))"

definition shell_exit :: "'w platform \<Rightarrow> 'w shell \<Rightarrow> int outcome \<times> 'w shell" where
  "shell_exit k s = (Exits (SHELL_EXIT k), s)"

definition dup_fd :: "int \<Rightarrow> int \<Rightarrow> 'w shell \<Rightarrow> int \<times> 'w shell" where
  "dup_fd fd descriptor s =
     (case sys_dup2 fd descriptor s of
        (r, s1) \<Rightarrow>
          if r = - 1 then (let s2 = perror ''dup2'' s1; (_, s3) = sys_close fd s2 in (- 1, s3))
          else (0, s1))"

definition redirect :: "'w platform \<Rightarrow> string \<Rightarrow> int \<Rightarrow> int \<Rightarrow> 'w shell \<Rightarrow> int \<times> 'w shell" where
  "redirect k filename descriptor appnd s =
     (if descriptor = STDIN_FILENO then
        (case sys_open k filename {O_RDONLY} s of
           (fd, s1) \<Rightarrow>
             if fd = - 1 then (- 1, perror ''open'' s1)
             else (let (_, s2) = dup_fd fd STDIN_FILENO s1;
                       (_, s3) = sys_close fd s2
                   in (0, s3)))
      else
        (let flags = {O_WRONLY, O_CREAT};
             flags = (if appnd \<noteq> 0 then insert O_APPEND flags else insert O_TRUNC flags)
         in case sys_open k filename flags s of
              (fd, s1) \<Rightarrow>
                if fd = - 1 then (- 1, perror ''open'' s1)
                else (let s2 = (if descriptor AND STDOUT_FILENO \<noteq> 0
                                then snd (dup_fd fd STDOUT_FILENO s1) else s1);
                          s3 = (if descriptor AND STDERR_FILENO \<noteq> 0
                                then snd (dup_fd fd STDERR_FILENO s2) else s2);
                          (_, s4) = sys_close fd s3
                      in (0, s4))))"

definition apply_redirections :: "'w platform \<Rightarrow> simple_command_t \<Rightarrow> 'w shell \<Rightarrow> int \<times> 'w shell" where
  "apply_redirections k s st =
     (let (exit_status, st1) =
            (case get_word (inp s) of
               Some i \<Rightarrow> redirect k i STDIN_FILENO 0 st
             | None \<Rightarrow> (0, st))
      in if exit_status = - 1 then (exit_status, st1)
         else if err s \<noteq> None \<and> out s \<noteq> None \<and> ptr_eq (err s) (out s) then
           (case (get_word (out s), get_word (err s)) of
              (Some ou, Some er) \<Rightarrow> redirect k ou (STDOUT_FILENO OR STDERR_FILENO) 0 st1
            | _ \<Rightarrow> (exit_status, st1))
         else
           (let (exit_status, st2) =
                  (if err s \<noteq> None then
                     (case get_word (err s) of
                        Some er \<Rightarrow> redirect k er STDERR_FILENO (io_flags s AND IO_ERR_APPEND k) st1
                      | None \<Rightarrow> (exit_status, st1))
                   else (exit_status, st1))
            in if out s \<noteq> None then
                 (case get_word (out s) of
                    Some ou \<Rightarrow> redirect k ou STDOUT_FILENO (io_flags s AND IO_OUT_APPEND k) st2
                  | None \<Rightarrow> (exit_status, st2))
               else (exit_status, st2)))"

definition duplicate_file_descriptors :: "'w shell \<Rightarrow> (int \<times> int \<times> int) \<times> 'w shell" where
  "duplicate_file_descriptors s =
     (let (original_stdin, s1) = sys_dup STDIN_FILENO s;
          (original_stdout, s2) = sys_dup STDOUT_FILENO s1;
          (original_stderr, s3) = sys_dup STDERR_FILENO s2
      in if original_stdin = - 1 \<or> original_stdout = - 1 \<or> original_stderr = - 1
         then (let s4 = perror ''dup'' s3;
                   (_, s5) = sys_close original_stdin s4;
                   (_, s6) = sys_close original_stdout s5;
                   (_, s7) = sys_close original_stderr s6
               in ((original_stdin, original_stdout, original_stderr), s7))
         else ((original_stdin, original_stdout, original_stderr), s3))"

definition restore_file_descriptors :: "int \<Rightarrow> int \<Rightarrow> int \<Rightarrow> 'w shell \<Rightarrow> 'w shell" where
  "restore_file_descriptors original_stdin original_stdout original_stderr s =
     (let (_, s1) = dup_fd original_stdin STDIN_FILENO s;
          (_, s2) = dup_fd original_stdout STDOUT_FILENO s1;
          (_, s3) = dup_fd original_stderr STDERR_FILENO s2;
          (_, s4) = sys_close original_stdin s3;
          (_, s5) = sys_close original_stdout s4;
          (_, s6) = sys_close original_stderr s5
      in s6)"

text \<open>
  The child of \<^verbatim>\<open>parse_simple\<close>: \<^verbatim>\<open>execvp\<close> replaces it by the program, which ends with
  the wait status the platform gives; when \<^verbatim>\<open>execvp\<close> returns, the child prints and
  calls \<^verbatim>\<open>exit(127)\<close>. The result is the wait status and the state the child ends in.
\<close>

definition exec_child :: "'w platform \<Rightarrow> string \<Rightarrow> string list \<Rightarrow> 'w shell \<Rightarrow> int \<times> 'w shell" where
  "exec_child k command argv c =
     (case k_exec k (world c) (fdt c) (cwd c) (env c) command argv of
        Some (status, w) \<Rightarrow> (status, c\<lparr>world := w\<rparr>)
      | None \<Rightarrow>
          (exited_with 127, printf (''Execution failed for '' @ [CHR 39] @ command @ [CHR 39, CHR 10]) c))"

definition parse_simple :: "'w platform \<Rightarrow> simple_command_t option \<Rightarrow> 'w shell \<Rightarrow> int outcome \<times> 'w shell" where
  "parse_simple k sp st =
     (case sp of
        None \<Rightarrow> (Returns 0, st)
      | Some s \<Rightarrow>
          (let command = get_word (verb s);
               argv = get_argv s;
               ((original_stdin, original_stdout, original_stderr), st1) =
                  duplicate_file_descriptors st;
               (r, st2) = apply_redirections k s st1
           in if r = - 1 then (Returns (- 1), st2)
              else
                (case command of
                   None \<Rightarrow> (Undefined, st2)
                 | Some cmd \<Rightarrow>
                     if cmd = ''exit'' \<or> cmd = ''quit'' then
                       shell_exit k
                         (restore_file_descriptors original_stdin original_stdout original_stderr st2)
                     else if cmd = ''cd'' then
                       (let (ret, st3) = shell_cd k (params s) st2;
                            st4 = restore_file_descriptors original_stdin original_stdout
                                    original_stderr st3
                        in (Returns (if ret then 0 else 1), st4))
                     else if CHR ''='' \<in> set cmd then
                       (case parse_environment_variable (Some cmd) st2 of
                          (Returns _, st3) \<Rightarrow>
                            (Returns 0,
                             restore_file_descriptors original_stdin original_stdout
                               original_stderr st3)
                        | (Exits v, st3) \<Rightarrow> (Exits v, st3)
                        | (Undefined, st3) \<Rightarrow> (Undefined, st3))
                     else
                       (case k_fork k (world st2) of
                          None \<Rightarrow>
                            (Returns (- 1),
                             perror ''fork''
                               (restore_file_descriptors original_stdin original_stdout
                                  original_stderr st2))
                        | Some (pid, w) \<Rightarrow>
                            (let (cstatus, c) = exec_child k cmd argv (child_of st2 pid w);
                                 st3 = after_child pid cstatus c st2;
                                 (status, st4) = sys_waitpid pid st3;
                                 st5 = restore_file_descriptors original_stdin original_stdout
                                         original_stderr st4
                             in case status of
                                  None \<Rightarrow> (Undefined, st5)
                                | Some status \<Rightarrow> (Returns (WEXITSTATUS status), st5))))))"

text \<open>
  What the two children of \<^verbatim>\<open>run_on_pipe\<close> do to their descriptors before they evaluate
  their subtree.
\<close>

definition writer_end :: "int \<times> int \<Rightarrow> 'w shell \<Rightarrow> 'w shell" where
  "writer_end pipefd c =
     (let (_, c1) = sys_close (fst pipefd) c;
          (_, c2) = sys_dup2 (snd pipefd) STDOUT_FILENO c1;
          (_, c3) = sys_close (snd pipefd) c2
      in c3)"

definition reader_end :: "int \<times> int \<Rightarrow> 'w shell \<Rightarrow> 'w shell" where
  "reader_end pipefd c =
     (let (_, c1) = sys_close (snd pipefd) c;
          (_, c2) = sys_dup2 (fst pipefd) STDIN_FILENO c1;
          (_, c3) = sys_close (fst pipefd) c2
      in c3)"

function (sequential)
  run_in_parallel :: "'w platform \<Rightarrow> command_t \<Rightarrow> command_t \<Rightarrow> 'w shell \<Rightarrow> bool outcome \<times> 'w shell"
  and run_on_pipe :: "'w platform \<Rightarrow> command_t \<Rightarrow> command_t \<Rightarrow> 'w shell \<Rightarrow> bool outcome \<times> 'w shell"
  and parse_command :: "'w platform \<Rightarrow> command_t \<Rightarrow> 'w shell \<Rightarrow> int outcome \<times> 'w shell"
where
  "run_in_parallel k cmd1 cmd2 s =
     (case k_fork k (world s) of
        None \<Rightarrow> (Returns False, perror ''fork'' s)
      | Some (pid1, w1) \<Rightarrow>
          (case parse_command k cmd1 (child_of s pid1 w1) of
             (r1, c1) \<Rightarrow>
               (case exit_of r1 of
                  None \<Rightarrow> (Undefined, c1)
                | Some st1 \<Rightarrow>
                    (let s1 = after_child pid1 st1 c1 s in
                     case k_fork k (world s1) of
                       None \<Rightarrow> (Returns False, perror ''fork'' s1)
                     | Some (pid2, w2) \<Rightarrow>
                         (case parse_command k cmd2 (child_of s1 pid2 w2) of
                            (r2, c2) \<Rightarrow>
                              (case exit_of r2 of
                                 None \<Rightarrow> (Undefined, c2)
                               | Some st2 \<Rightarrow>
                                   (let s2 = after_child pid2 st2 c2 s1;
                                        (status1, s3) = sys_waitpid pid1 s2;
                                        (status2, s4) = sys_waitpid pid2 s3
                                    in (Returns True, s4))))))))"
| "run_on_pipe k cmd1 cmd2 s =
     (case sys_pipe k s of
        (p, pipefd, s0) \<Rightarrow>
          if p = - 1 then (Returns False, perror ''pipe'' s0)
          else
            (case k_fork k (world s0) of
               None \<Rightarrow> (Returns False, perror ''fork'' s0)
             | Some (pid1, w1) \<Rightarrow>
                 (case parse_command k cmd1 (writer_end pipefd (child_of s0 pid1 w1)) of
                    (r1, c1) \<Rightarrow>
                      (case exit_of r1 of
                         None \<Rightarrow> (Undefined, c1)
                       | Some st1 \<Rightarrow>
                           (let s1 = after_child pid1 st1 c1 s0 in
                            case k_fork k (world s1) of
                              None \<Rightarrow> (Returns False, perror ''fork'' s1)
                            | Some (pid2, w2) \<Rightarrow>
                                (case parse_command k cmd2
                                        (reader_end pipefd (child_of s1 pid2 w2)) of
                                   (r2, c2) \<Rightarrow>
                                     (case exit_of r2 of
                                        None \<Rightarrow> (Undefined, c2)
                                      | Some st2 \<Rightarrow>
                                          (let s2 = after_child pid2 st2 c2 s1;
                                               (_, s3) = sys_close (fst pipefd) s2;
                                               (_, s4) = sys_close (snd pipefd) s3;
                                               (status1, s5) = sys_waitpid pid1 s4;
                                               (status2, s6) = sys_waitpid pid2 s5
                                           in case status2 of
                                                None \<Rightarrow> (Undefined, s6)
                                              | Some status2 \<Rightarrow>
                                                  (Returns (if WEXITSTATUS status2 \<noteq> 0
                                                            then False else True), s6)))))))))"
| "parse_command k Null s = (Returns 0, s)"
| "parse_command k (Command opr sc c1 c2) s =
     (if opr = OP_NONE then parse_simple k sc s
      else
        (case opr of
           OP_SEQUENTIAL \<Rightarrow>
             (case parse_command k c1 s of
                (Returns exit_status, s1) \<Rightarrow> parse_command k c2 s1
              | (Exits v, s1) \<Rightarrow> (Exits v, s1)
              | (Undefined, s1) \<Rightarrow> (Undefined, s1))
         | OP_PARALLEL \<Rightarrow>
             (case run_in_parallel k c1 c2 s of
                (Returns b, s1) \<Rightarrow> (Returns (if b then 0 else 1), s1)
              | (Exits v, s1) \<Rightarrow> (Exits v, s1)
              | (Undefined, s1) \<Rightarrow> (Undefined, s1))
         | OP_CONDITIONAL_NZERO \<Rightarrow>
             (case parse_command k c1 s of
                (Returns exit_status, s1) \<Rightarrow>
                  if exit_status \<noteq> 0 then parse_command k c2 s1 else (Returns exit_status, s1)
              | (Exits v, s1) \<Rightarrow> (Exits v, s1)
              | (Undefined, s1) \<Rightarrow> (Undefined, s1))
         | OP_CONDITIONAL_ZERO \<Rightarrow>
             (case parse_command k c1 s of
                (Returns exit_status, s1) \<Rightarrow>
                  if exit_status = 0 then parse_command k c2 s1 else (Returns exit_status, s1)
              | (Exits v, s1) \<Rightarrow> (Exits v, s1)
              | (Undefined, s1) \<Rightarrow> (Undefined, s1))
         | OP_PIPE \<Rightarrow>
             (case run_on_pipe k c1 c2 s of
                (Returns b, s1) \<Rightarrow> (Returns (if b then 0 else 1), s1)
              | (Exits v, s1) \<Rightarrow> (Exits v, s1)
              | (Undefined, s1) \<Rightarrow> (Undefined, s1))
         | _ \<Rightarrow> (Returns (SHELL_EXIT k), s)))"
  by pat_completeness auto

termination
  by (relation "measure (\<lambda>x. case x of
         Inl (k, a, b, s) \<Rightarrow> 2 * (size a + size b) + 1
       | Inr (Inl (k, a, b, s)) \<Rightarrow> 2 * (size a + size b) + 1
       | Inr (Inr (k, c, s)) \<Rightarrow> 2 * size c)") auto


section \<open>The variant \<^verbatim>\<open>part_000\<close>\<close>

definition p0_shell_cd :: "'w platform \<Rightarrow> word_t list \<Rightarrow> 'w shell \<Rightarrow> bool \<times> 'w shell" where
  "p0_shell_cd k dir s =
     (case dir of
        [] \<Rightarrow> (True, s)
      | d # next_word \<Rightarrow>
          if next_word \<noteq> [] then (True, s)
          else (let dir_path = w_text d in
                case sys_chdir k dir_path s of
                  (r, s1) \<Rightarrow> if r \<noteq> 0 then (False, perror ''chdir'' s1) else (True, s1)))"

definition p0_shell_exit :: "'w shell \<Rightarrow> int outcome \<times> 'w shell" where
  "p0_shell_exit s = (Exits 0, s)"

definition p0_redirect_output :: "'w platform \<Rightarrow> string \<Rightarrow> int \<Rightarrow> 'w shell \<Rightarrow> int \<times> 'w shell" where
  "p0_redirect_output k filename appnd s =
     (let flags = {O_WRONLY, O_CREAT};
          flags = (if appnd \<noteq> 0 then insert O_APPEND flags else insert O_TRUNC flags)
      in case sys_open k filename flags s of
           (fd, s1) \<Rightarrow>
             if fd = - 1 then (- 1, printf ''open'' s1)
             else (case sys_dup2 fd STDOUT_FILENO s1 of
                     (r, s2) \<Rightarrow>
                       if r = - 1 then (- 1, snd (sys_close fd s2))
                       else (0, snd (sys_close fd s2))))"

definition p0_redirect_input :: "'w platform \<Rightarrow> string \<Rightarrow> 'w shell \<Rightarrow> int \<times> 'w shell" where
  "p0_redirect_input k filename s =
     (case sys_open k filename {O_RDONLY} s of
        (fd, s1) \<Rightarrow>
          if fd = - 1 then (- 1, perror ''open'' s1)
          else (case sys_dup2 fd STDIN_FILENO s1 of
                  (r, s2) \<Rightarrow>
                    if r = - 1 then (- 1, snd (sys_close fd (perror ''dup2'' s2)))
                    else (0, snd (sys_close fd s2))))"

definition p0_redirect_stderr :: "'w platform \<Rightarrow> string \<Rightarrow> int \<Rightarrow> 'w shell \<Rightarrow> int \<times> 'w shell" where
  "p0_redirect_stderr k filename appnd s =
     (let flags = {O_WRONLY, O_CREAT};
          flags = (if appnd \<noteq> 0 then insert O_APPEND flags else insert O_TRUNC flags)
      in case sys_open k filename flags s of
           (fd, s1) \<Rightarrow>
             if fd = - 1 then (- 1, perror ''open'' s1)
             else (case sys_dup2 fd STDERR_FILENO s1 of
                     (r, s2) \<Rightarrow>
                       if r = - 1 then (- 1, snd (sys_close fd (perror ''dup2'' s2)))
                       else (0, snd (sys_close fd s2))))"

definition p0_redirect_output_stderr :: "'w platform \<Rightarrow> string \<Rightarrow> 'w shell \<Rightarrow> int \<times> 'w shell" where
  "p0_redirect_output_stderr k filename s =
     (case sys_open k filename {O_WRONLY, O_CREAT, O_TRUNC} s of
        (fd, s1) \<Rightarrow>
          if fd = - 1 then (- 1, perror ''open'' s1)
          else (case sys_dup2 fd STDOUT_FILENO s1 of
                  (r, s2) \<Rightarrow>
                    if r = - 1 then (- 1, snd (sys_close fd (perror ''dup2'' s2)))
                    else (case sys_dup2 fd STDERR_FILENO s2 of
                            (r, s3) \<Rightarrow>
                              if r = - 1 then (- 1, snd (sys_close fd (perror ''dup2'' s3)))
                              else (0, snd (sys_close fd s3)))))"

text \<open>
  In the branch for a shared target the C code declares a new \<^verbatim>\<open>exit_status\<close> inside
  the block, so the result of \<^verbatim>\<open>redirect_output_stderr\<close> never reaches the
  \<^verbatim>\<open>exit_status\<close> that is returned.
\<close>

definition p0_apply_redirections :: "'w platform \<Rightarrow> simple_command_t \<Rightarrow> 'w shell \<Rightarrow> int \<times> 'w shell" where
  "p0_apply_redirections k s st =
     (let (exit_status, st1) =
            (case get_word (inp s) of
               Some i \<Rightarrow> p0_redirect_input k i st
             | None \<Rightarrow> (0, st))
      in if exit_status = - 1 then (- 1, st1)
         else if err s \<noteq> None \<and> out s \<noteq> None \<and> ptr_eq (err s) (out s) then
           (case (get_word (out s), get_word (err s)) of
              (Some ou, Some er) \<Rightarrow> (exit_status, snd (p0_redirect_output_stderr k ou st1))
            | _ \<Rightarrow> (exit_status, st1))
         else
           (let (exit_status, st2) =
                  (if err s \<noteq> None then
                     (case get_word (err s) of
                        Some er \<Rightarrow> p0_redirect_stderr k er (io_flags s AND IO_ERR_APPEND k) st1
                      | None \<Rightarrow> (exit_status, st1))
                   else (exit_status, st1))
            in if out s \<noteq> None then
                 (case get_word (out s) of
                    Some ou \<Rightarrow> p0_redirect_output k ou (io_flags s AND IO_OUT_APPEND k) st2
                  | None \<Rightarrow> (exit_status, st2))
               else (exit_status, st2)))"

definition p0_duplicate_file_descriptors :: "'w shell \<Rightarrow> (int \<times> int \<times> int) \<times> 'w shell" where
  "p0_duplicate_file_descriptors s =
     (let (original_stdin, s1) = sys_dup STDIN_FILENO s;
          (original_stdout, s2) = sys_dup STDOUT_FILENO s1;
          (original_stderr, s3) = sys_dup STDERR_FILENO s2
      in ((original_stdin, original_stdout, original_stderr), s3))"

definition p0_restore_file_descriptors :: "int \<Rightarrow> int \<Rightarrow> int \<Rightarrow> 'w shell \<Rightarrow> 'w shell" where
  "p0_restore_file_descriptors original_stdin original_stdout original_stderr s =
     (let (_, s1) = sys_dup2 original_stdin STDIN_FILENO s;
          (_, s2) = sys_dup2 original_stdout STDOUT_FILENO s1;
          (_, s3) = sys_dup2 original_stderr STDERR_FILENO s2;
          (_, s4) = sys_close original_stdin s3;
          (_, s5) = sys_close original_stdout s4;
          (_, s6) = sys_close original_stderr s5
      in s6)"

text \<open>
  Modelled from the spec: \<^verbatim>\<open>parse_env_assignment\<close> is called by \<^verbatim>\<open>part_000\<close> and defined
  nowhere in the repository. The spec: "split on the first \<^verbatim>\<open>=\<close> into name and value,
  bind the variable in the process environment".
\<close>

definition parse_env_assignment :: "string \<Rightarrow> 'w shell \<Rightarrow> 'w shell" where
  "parse_env_assignment command s =
     s\<lparr>env := (env s)(takeWhile (\<lambda>c. c \<noteq> CHR ''='') command
                        \<mapsto> drop 1 (dropWhile (\<lambda>c. c \<noteq> CHR ''='') command))\<rparr>"

text \<open>The child of \<^verbatim>\<open>parse_simple\<close>; \<^verbatim>\<open>EXIT_FAILURE\<close> is 1.\<close>

definition p0_exec_child :: "'w platform \<Rightarrow> string \<Rightarrow> string list \<Rightarrow> 'w shell \<Rightarrow> int \<times> 'w shell" where
  "p0_exec_child k command argv c =
     (case k_exec k (world c) (fdt c) (cwd c) (env c) command argv of
        Some (status, w) \<Rightarrow> (status, c\<lparr>world := w\<rparr>)
      | None \<Rightarrow> (exited_with 1, perror command c))"

definition p0_parse_simple :: "'w platform \<Rightarrow> simple_command_t option \<Rightarrow> 'w shell \<Rightarrow> int outcome \<times> 'w shell" where
  "p0_parse_simple k sp st =
     (case sp of
        None \<Rightarrow> (Undefined, st)
      | Some s \<Rightarrow>
          (let command = get_word (verb s);
               argv = get_argv s;
               ((original_stdin, original_stdout, original_stderr), st1) =
                  p0_duplicate_file_descriptors st;
               (r, st2) = p0_apply_redirections k s st1
           in if r = - 1 then (Returns (- 1), st2)
              else
                (case command of
                   None \<Rightarrow> (Undefined, st2)
                 | Some cmd \<Rightarrow>
                     if cmd = ''exit'' \<or> cmd = ''quit'' then p0_shell_exit st2
                     else if cmd = ''cd'' then
                       (let (ret, st3) = p0_shell_cd k (params s) st2;
                            st4 = p0_restore_file_descriptors original_stdin original_stdout
                                    original_stderr st3
                        in (Returns (if ret then 0 else 1), st4))
                     else if CHR ''='' \<in> set cmd then
                       (Returns 0, parse_env_assignment cmd st2)
                     else
                       (case k_fork k (world st2) of
                          None \<Rightarrow> (Returns (- 1), perror ''fork'' st2)
                        | Some (pid, w) \<Rightarrow>
                            (let (cstatus, c) = p0_exec_child k cmd argv (child_of st2 pid w);
                                 st3 = after_child pid cstatus c st2;
                                 (status, st4) = sys_waitpid pid st3;
                                 st5 = p0_restore_file_descriptors original_stdin original_stdout
                                         original_stderr st4
                             in case status of
                                  None \<Rightarrow> (Undefined, st5)
                                | Some status \<Rightarrow> (Returns (WEXITSTATUS status), st5))))))"

function (sequential)
  p0_run_in_parallel :: "'w platform \<Rightarrow> command_t \<Rightarrow> command_t \<Rightarrow> 'w shell \<Rightarrow> bool outcome \<times> 'w shell"
  and p0_run_on_pipe :: "'w platform \<Rightarrow> command_t \<Rightarrow> command_t \<Rightarrow> 'w shell \<Rightarrow> bool outcome \<times> 'w shell"
  and p0_parse_command :: "'w platform \<Rightarrow> command_t \<Rightarrow> 'w shell \<Rightarrow> int outcome \<times> 'w shell"
where
  "p0_run_in_parallel k cmd1 cmd2 s =
     (case k_fork k (world s) of
        None \<Rightarrow> (Returns False, perror ''fork'' s)
      | Some (pid1, w1) \<Rightarrow>
          (case p0_parse_command k cmd1 (child_of s pid1 w1) of
             (r1, c1) \<Rightarrow>
               (case exit_of r1 of
                  None \<Rightarrow> (Undefined, c1)
                | Some st1 \<Rightarrow>
                    (let s1 = after_child pid1 st1 c1 s in
                     case k_fork k (world s1) of
                       None \<Rightarrow> (Returns False, perror ''fork'' s1)
                     | Some (pid2, w2) \<Rightarrow>
                         (case p0_parse_command k cmd2 (child_of s1 pid2 w2) of
                            (r2, c2) \<Rightarrow>
                              (case exit_of r2 of
                                 None \<Rightarrow> (Undefined, c2)
                               | Some st2 \<Rightarrow> (Returns True, after_child pid2 st2 c2 s1)))))))"
| "p0_run_on_pipe k cmd1 cmd2 s =
     (case sys_pipe k s of
        (p, pipefd, s0) \<Rightarrow>
          if p = - 1 then (Returns False, perror ''pipe'' s0)
          else
            (case k_fork k (world s0) of
               None \<Rightarrow> (Returns False, perror ''fork'' s0)
             | Some (pid1, w1) \<Rightarrow>
                 (case p0_parse_command k cmd1 (writer_end pipefd (child_of s0 pid1 w1)) of
                    (r1, c1) \<Rightarrow>
                      (case exit_of r1 of
                         None \<Rightarrow> (Undefined, c1)
                       | Some st1 \<Rightarrow>
                           (let s1 = after_child pid1 st1 c1 s0 in
                            case k_fork k (world s1) of
                              None \<Rightarrow> (Returns False, perror ''fork'' s1)
                            | Some (pid2, w2) \<Rightarrow>
                                (case p0_parse_command k cmd2
                                        (reader_end pipefd (child_of s1 pid2 w2)) of
                                   (r2, c2) \<Rightarrow>
                                     (case exit_of r2 of
                                        None \<Rightarrow> (Undefined, c2)
                                      | Some st2 \<Rightarrow>
                                          (let s2 = after_child pid2 st2 c2 s1;
                                               (_, s3) = sys_close (fst pipefd) s2;
                                               (_, s4) = sys_close (snd pipefd) s3;
                                               (status1, s5) = sys_waitpid pid1 s4;
                                               (status2, s6) = sys_waitpid pid2 s5
                                           in case status2 of
                                                None \<Rightarrow> (Undefined, s6)
                                              | Some status2 \<Rightarrow>
                                                  (Returns (if WEXITSTATUS status2 \<noteq> 0
                                                            then False else True), s6)))))))))"
| "p0_parse_command k Null s = (Undefined, s)"
| "p0_parse_command k (Command opr sc c1 c2) s =
     (if opr = OP_NONE then p0_parse_simple k sc s
      else
        (case opr of
           OP_SEQUENTIAL \<Rightarrow>
             (case p0_parse_command k c1 s of
                (Returns exit_status, s1) \<Rightarrow> p0_parse_command k c2 s1
              | (Exits v, s1) \<Rightarrow> (Exits v, s1)
              | (Undefined, s1) \<Rightarrow> (Undefined, s1))
         | OP_PARALLEL \<Rightarrow>
             (case p0_run_in_parallel k c1 c2 s of
                (Returns b, s1) \<Rightarrow> (Returns (if b then 0 else 1), s1)
              | (Exits v, s1) \<Rightarrow> (Exits v, s1)
              | (Undefined, s1) \<Rightarrow> (Undefined, s1))
         | OP_CONDITIONAL_NZERO \<Rightarrow>
             (case p0_parse_command k c1 s of
                (Returns exit_status, s1) \<Rightarrow>
                  if exit_status \<noteq> 0 then p0_parse_command k c2 s1 else (Returns exit_status, s1)
              | (Exits v, s1) \<Rightarrow> (Exits v, s1)
              | (Undefined, s1) \<Rightarrow> (Undefined, s1))
         | OP_CONDITIONAL_ZERO \<Rightarrow>
             (case p0_parse_command k c1 s of
                (Returns exit_status, s1) \<Rightarrow>
                  if exit_status = 0 then p0_parse_command k c2 s1 else (Returns exit_status, s1)
              | (Exits v, s1) \<Rightarrow> (Exits v, s1)
              | (Undefined, s1) \<Rightarrow> (Undefined, s1))
         | OP_PIPE \<Rightarrow>
             (case p0_run_on_pipe k c1 c2 s of
                (Returns b, s1) \<Rightarrow> (Returns (if b then 0 else 1), s1)
              | (Exits v, s1) \<Rightarrow> (Exits v, s1)
              | (Undefined, s1) \<Rightarrow> (Undefined, s1))
         | _ \<Rightarrow> (Returns (SHELL_EXIT k), s)))"
  by pat_completeness auto

termination
  by (relation "measure (\<lambda>x. case x of
         Inl (k, a, b, s) \<Rightarrow> 2 * (size a + size b) + 1
       | Inr (Inl (k, a, b, s)) \<Rightarrow> 2 * (size a + size b) + 1
       | Inr (Inr (k, c, s)) \<Rightarrow> 2 * size c)") auto

section \<open>Both variants under one name\<close>

text \<open>
  Statements that hold for both files are made once, for a variant \<open>var\<close>: \<open>engine\<close> is
  \<^verbatim>\<open>parse_command\<close> and \<open>resolver\<close> is \<^verbatim>\<open>apply_redirections\<close> of the chosen file.
\<close>

datatype variant = Cmd_c | Part_000

definition engine :: "variant \<Rightarrow> 'w platform \<Rightarrow> command_t \<Rightarrow> 'w shell \<Rightarrow> int outcome \<times> 'w shell" where
  "engine var = (case var of Cmd_c \<Rightarrow> parse_command | Part_000 \<Rightarrow> p0_parse_command)"

definition resolver :: "variant \<Rightarrow> 'w platform \<Rightarrow> simple_command_t \<Rightarrow> 'w shell \<Rightarrow> int \<times> 'w shell" where
  "resolver var = (case var of Cmd_c \<Rightarrow> apply_redirections | Part_000 \<Rightarrow> p0_apply_redirections)"

section \<open>A small platform to run the engine on\<close>

text \<open>
  The world is a counter that names the objects the system creates. Files whose path
  starts with \<^verbatim>\<open>/nodir\<close> cannot be opened. The programs are \<^verbatim>\<open>true\<close> (status 0),
  \<^verbatim>\<open>false\<close> (status 1) and \<^verbatim>\<open>two\<close> (status 2); every other name makes \<^verbatim>\<open>execvp\<close> fail.
  The directories are \<^verbatim>\<open>/\<close> and \<^verbatim>\<open>/tmp\<close>. The shell starts with the three standard
  streams open and room for five more descriptors.
\<close>

definition demo :: "nat platform" where
  "demo = \<lparr>
     k_open = (\<lambda>w cwd path flags. if take 6 path = ''/nodir'' then None else Some (100 + w, Suc w)),
     k_pipe = (\<lambda>w. Some (200 + w, 300 + w, Suc w)),
     k_fork = (\<lambda>w. Some (1000 + w, Suc w)),
     k_exec = (\<lambda>w fds cwd env file argv.
                 if file = ''true'' then Some (exited_with 0, w)
                 else if file = ''false'' then Some (exited_with 1, w)
                 else if file = ''two'' then Some (exited_with 2, w)
                 else None),
     k_chdir = (\<lambda>w cwd path. if path = ''/'' \<or> path = ''/tmp'' then Some path else None),
     SHELL_EXIT = - 100,
     IO_OUT_APPEND = 1,
     IO_ERR_APPEND = 2 \<rparr>"

definition boot :: "nat shell" where
  "boot = \<lparr> fdt = [Some 0, Some 1, Some 2, None, None, None, None, None],
            cwd = ''/'', env = Map.empty, kids = [], trace = [], world = 0 \<rparr>"

definition word_at :: "nat \<Rightarrow> string \<Rightarrow> word_t" where
  "word_at a t = \<lparr> w_addr = a, w_text = t \<rparr>"

text \<open>
  \<open>simple v args\<close> is the simple command with verb \<open>v\<close>, parameters \<open>args\<close> and no
  redirection; \<open>leaf v args\<close> is the node that holds it.
\<close>

definition simple :: "string \<Rightarrow> string list \<Rightarrow> simple_command_t" where
  "simple v args = \<lparr> verb = Some (word_at 1 v),
                      params = map (\<lambda>(i, a). word_at (10 + i) a) (enumerate 0 args),
                      inp = None, out = None, err = None, io_flags = 0 \<rparr>"

definition leaf :: "string \<Rightarrow> string list \<Rightarrow> command_t" where
  "leaf v args = Command OP_NONE (Some (simple v args)) Null Null"

text \<open>\<^verbatim>\<open>true | two\<close> and \<^verbatim>\<open>true & two\<close>.\<close>

definition pipe_true_two :: command_t where
  "pipe_true_two = Command OP_PIPE None (leaf ''true'' []) (leaf ''two'' [])"

definition par_true_two :: command_t where
  "par_true_two = Command OP_PARALLEL None (leaf ''true'' []) (leaf ''two'' [])"

text \<open>\<^verbatim>\<open>true < a > /nodir/x\<close>: the input can be opened, the output cannot.\<close>

definition in_ok_out_bad :: simple_command_t where
  "in_ok_out_bad = (simple ''true'' [])\<lparr>inp := Some (word_at 3 ''a''),
                                        out := Some (word_at 4 ''/nodir/x'')\<rparr>"

text \<open>\<^verbatim>\<open>true 2> /nodir/e > o\<close>: the error target cannot be opened, the output target can.\<close>

definition err_bad_out_ok :: simple_command_t where
  "err_bad_out_ok = (simple ''true'' [])\<lparr>err := Some (word_at 3 ''/nodir/e''),
                                         out := Some (word_at 4 ''o'')\<rparr>"

text \<open>
  \<^verbatim>\<open>true &> f\<close> with both append flags set: one word for both streams; and the same
  command with two words that spell the same target.
\<close>

definition merged :: simple_command_t where
  "merged = (simple ''true'' [])\<lparr>out := Some (word_at 3 ''f''), err := Some (word_at 3 ''f''),
                                 io_flags := 3\<rparr>"

definition same_text :: simple_command_t where
  "same_text = (simple ''true'' [])\<lparr>out := Some (word_at 3 ''f''), err := Some (word_at 4 ''f''),
                                    io_flags := 3\<rparr>"

text \<open>\<^verbatim>\<open>true < a &> f\<close>: the same command with an input file.\<close>

definition merged_in :: simple_command_t where
  "merged_in = merged\<lparr>inp := Some (word_at 5 ''a'')\<rparr>"


text \<open>The events that are calls of \<^verbatim>\<open>open\<close>.\<close>

fun is_open :: "event \<Rightarrow> bool" where
  "is_open (Open f fl fd) = True"
| "is_open _ = False"

text \<open>
  Two predicates for the frame of a simple command: the three standard streams are
  open; and two descriptor tables have the same length and agree from descriptor 3
  upwards.
\<close>

definition streams_open :: "'w shell \<Rightarrow> bool" where
  "streams_open s \<longleftrightarrow>
     3 \<le> length (fdt s) \<and> fdt s ! 0 \<noteq> None \<and> fdt s ! 1 \<noteq> None \<and> fdt s ! 2 \<noteq> None"

definition same_above :: "'w shell \<Rightarrow> 'v shell \<Rightarrow> bool" where
  "same_above s s' \<longleftrightarrow>
     length (fdt s') = length (fdt s) \<and> (\<forall>j. 3 \<le> j \<longrightarrow> fdt s' ! j = fdt s ! j)"

text \<open>
  A shell with room for two descriptors only, of which descriptor 0 is open; and
  \<^verbatim>\<open>true &> /nodir/f\<close>, one word for both streams, which cannot be opened.
\<close>

definition two_slots :: "nat shell" where
  "two_slots = boot\<lparr>fdt := [Some 0, None]\<rparr>"

definition merged_bad :: simple_command_t where
  "merged_bad = (simple ''true'' [])\<lparr>out := Some (word_at 3 ''/nodir/f''),
                                     err := Some (word_at 3 ''/nodir/f'')\<rparr>"

section \<open>Auxiliary facts\<close>

declare run_in_parallel.simps [simp del] run_on_pipe.simps [simp del]
declare p0_run_in_parallel.simps [simp del] p0_run_on_pipe.simps [simp del]

lemma fst_eqD: "fst x = a \<Longrightarrow> \<exists>b. x = (a, b)"
  by (cases x) simp

lemma WEXITSTATUS_exited_with: "WEXITSTATUS (exited_with v) = v mod 256"
  by (simp add: WEXITSTATUS_def exited_with_def)

lemma exit_of_Returns: "exit_of (Returns v) = Some (exited_with v)"
  by (simp add: exit_of_def)

lemma sys_close_trace: "trace (snd (sys_close fd s)) = trace s"
  by (simp add: sys_close_def)

lemma sys_dup2_trace: "trace (snd (sys_dup2 a b s)) = trace s"
  by (simp add: sys_dup2_def)

lemma dup_fd_trace: "set (trace s) \<subseteq> set (trace (snd (dup_fd a b s)))"
  by (simp add: dup_fd_def sys_dup2_def sys_close_def perror_def log_def Let_def subset_insertI
      split: prod.splits)

lemma restore_trace: "set (trace s) \<subseteq> set (trace (restore_file_descriptors a b c s))"
proof -
  have "set (trace s) \<subseteq> set (trace (snd (dup_fd a STDIN_FILENO s)))" by (rule dup_fd_trace)
  also have "\<dots> \<subseteq> set (trace (snd (dup_fd b STDOUT_FILENO (snd (dup_fd a STDIN_FILENO s)))))"
    by (rule dup_fd_trace)
  also have "\<dots> \<subseteq> set (trace (snd (dup_fd c STDERR_FILENO
                 (snd (dup_fd b STDOUT_FILENO (snd (dup_fd a STDIN_FILENO s)))))))"
    by (rule dup_fd_trace)
  finally show ?thesis
    by (simp add: restore_file_descriptors_def sys_close_trace Let_def split_beta)
qed

subsection \<open>The pipeline, step by step\<close>

lemma pipe_reap:
  assumes "pid1 \<noteq> pid2"
  shows "fst (sys_waitpid pid2 (snd (sys_waitpid pid1 (snd (sys_close b (snd (sys_close a
           (after_child pid2 st2 c2 (after_child pid1 st1 c1 s0))))))))) = Some st2"
  using assms
  by (simp add: sys_waitpid_def sys_close_def after_child_def log_def)

lemma run_on_pipe_run:
  assumes "sys_pipe k s = (p, pipefd, s0)" "p \<noteq> - 1"
    and "k_fork k (world s0) = Some (pid1, w1)"
    and "parse_command k l (writer_end pipefd (child_of s0 pid1 w1)) = (r1, c1)"
    and "exit_of r1 = Some st1"
    and "k_fork k (world c1) = Some (pid2, w2)"
    and "parse_command k r (reader_end pipefd (child_of (after_child pid1 st1 c1 s0) pid2 w2))
           = (r2, c2)"
    and "exit_of r2 = Some st2"
    and "pid1 \<noteq> pid2"
  shows "fst (run_on_pipe k l r s) = Returns (WEXITSTATUS st2 = 0)"
proof -
  have w: "world (after_child pid1 st1 c1 s0) = world c1" by (simp add: after_child_def)
  show ?thesis
    using assms(1-8) w pipe_reap [OF assms(9), of "snd pipefd" "fst pipefd" st2 c2 st1 c1 s0]
    by (simp add: run_on_pipe.simps Let_def split_beta)
qed

lemma p0_run_on_pipe_run:
  assumes "sys_pipe k s = (p, pipefd, s0)" "p \<noteq> - 1"
    and "k_fork k (world s0) = Some (pid1, w1)"
    and "p0_parse_command k l (writer_end pipefd (child_of s0 pid1 w1)) = (r1, c1)"
    and "exit_of r1 = Some st1"
    and "k_fork k (world c1) = Some (pid2, w2)"
    and "p0_parse_command k r (reader_end pipefd (child_of (after_child pid1 st1 c1 s0) pid2 w2))
           = (r2, c2)"
    and "exit_of r2 = Some st2"
    and "pid1 \<noteq> pid2"
  shows "fst (p0_run_on_pipe k l r s) = Returns (WEXITSTATUS st2 = 0)"
proof -
  have w: "world (after_child pid1 st1 c1 s0) = world c1" by (simp add: after_child_def)
  show ?thesis
    using assms(1-8) w pipe_reap [OF assms(9), of "snd pipefd" "fst pipefd" st2 c2 st1 c1 s0]
    by (simp add: p0_run_on_pipe.simps Let_def split_beta)
qed

subsection \<open>The parallel node, step by step\<close>

lemma run_in_parallel_run:
  assumes "k_fork k (world s) = Some (pid1, w1)"
    and "parse_command k l (child_of s pid1 w1) = (r1, c1)"
    and "exit_of r1 = Some st1"
    and "k_fork k (world c1) = Some (pid2, w2)"
    and "parse_command k r (child_of (after_child pid1 st1 c1 s) pid2 w2) = (r2, c2)"
    and "exit_of r2 = Some st2"
  shows "run_in_parallel k l r s =
           (Returns True,
            s\<lparr>trace := trace c2 @ (if pid1 = pid2 then [Waited pid1 st2, Waited pid2 st1]
                                     else [Waited pid1 st1, Waited pid2 st2]),
              world := world c2\<rparr>)"
  using assms
  by (simp add: run_in_parallel.simps after_child_def sys_waitpid_def log_def)

lemma run_in_parallel_True:
  assumes T: "run_in_parallel k l r s = (Returns True, s')"
  obtains pid1 w1 r1 c1 st1 pid2 w2 r2 c2 st2 where
    "k_fork k (world s) = Some (pid1, w1)"
    "parse_command k l (child_of s pid1 w1) = (r1, c1)"
    "exit_of r1 = Some st1"
    "k_fork k (world c1) = Some (pid2, w2)"
    "parse_command k r (child_of (after_child pid1 st1 c1 s) pid2 w2) = (r2, c2)"
    "exit_of r2 = Some st2"
proof (cases "k_fork k (world s)")
  case None
  with T show ?thesis by (simp add: run_in_parallel.simps)
next
  case (Some p1)
  obtain pid1 w1 where p1: "p1 = (pid1, w1)" by (cases p1)
  obtain r1 c1 where c1: "parse_command k l (child_of s pid1 w1) = (r1, c1)"
    by (cases "parse_command k l (child_of s pid1 w1)")
  show ?thesis
  proof (cases "exit_of r1")
    case None
    with T Some p1 c1 show ?thesis by (simp add: run_in_parallel.simps)
  next
    case e1: (Some st1)
    have w: "world (after_child pid1 st1 c1 s) = world c1" by (simp add: after_child_def)
    show ?thesis
    proof (cases "k_fork k (world c1)")
      case None
      with T Some p1 c1 e1 w show ?thesis by (simp add: run_in_parallel.simps)
    next
      case f2: (Some p2)
      obtain pid2 w2 where p2: "p2 = (pid2, w2)" by (cases p2)
      obtain r2 c2 where c2:
        "parse_command k r (child_of (after_child pid1 st1 c1 s) pid2 w2) = (r2, c2)"
        by (cases "parse_command k r (child_of (after_child pid1 st1 c1 s) pid2 w2)")
      show ?thesis
      proof (cases "exit_of r2")
        case None
        with T Some p1 c1 e1 w f2 p2 c2 show ?thesis by (simp add: run_in_parallel.simps)
      next
        case e2: (Some st2)
        show ?thesis
          using that [of pid1 w1 r1 c1 st1 pid2 w2 r2 c2 st2] Some p1 c1 e1 f2 p2 c2 e2
          by simp
      qed
    qed
  qed
qed

lemma p0_run_in_parallel_run:
  assumes "k_fork k (world s) = Some (pid1, w1)"
    and "p0_parse_command k l (child_of s pid1 w1) = (r1, c1)"
    and "exit_of r1 = Some st1"
    and "k_fork k (world c1) = Some (pid2, w2)"
    and "p0_parse_command k r (child_of (after_child pid1 st1 c1 s) pid2 w2) = (r2, c2)"
    and "exit_of r2 = Some st2"
  shows "p0_run_in_parallel k l r s =
           (Returns True,
            s\<lparr>kids := (pid2, st2) # (pid1, st1) # kids s, trace := trace c2, world := world c2\<rparr>)"
  using assms
  by (simp add: p0_run_in_parallel.simps after_child_def)

subsection \<open>The external command, step by step\<close>

lemma parse_simple_external:
  assumes v: "verb sc = Some v"
    and n1: "w_text v \<noteq> ''exit''" and n2: "w_text v \<noteq> ''quit''" and n3: "w_text v \<noteq> ''cd''"
    and n4: "CHR ''='' \<notin> set (w_text v)"
    and d: "duplicate_file_descriptors st = ((a, b, c), st1)"
    and r: "apply_redirections k sc st1 = (r, st2)" and rn: "r \<noteq> - 1"
    and f: "k_fork k (world st2) = Some (pid, w)"
    and x: "exec_child k (w_text v) (get_argv sc) (child_of st2 pid w) = (cstatus, ch)"
  shows "parse_simple k (Some sc) st =
           (Returns (WEXITSTATUS cstatus),
            restore_file_descriptors a b c
              (log (Waited pid cstatus) (st2\<lparr>trace := trace ch, world := world ch\<rparr>)))"
proof -
  have w: "sys_waitpid pid (after_child pid cstatus ch st2) =
             (Some cstatus, log (Waited pid cstatus) (st2\<lparr>trace := trace ch, world := world ch\<rparr>))"
    by (simp add: sys_waitpid_def after_child_def)
  show ?thesis
    unfolding parse_simple_def
    by (simp add: v get_word_def d r rn n1 n2 n3 n4 f x w del: set_simps)
qed

lemma p0_restore_trace: "trace (p0_restore_file_descriptors a b c s) = trace s"
  by (simp add: p0_restore_file_descriptors_def sys_close_trace sys_dup2_trace Let_def split_beta)

lemma p0_parse_simple_external:
  assumes v: "verb sc = Some v"
    and n1: "w_text v \<noteq> ''exit''" and n2: "w_text v \<noteq> ''quit''" and n3: "w_text v \<noteq> ''cd''"
    and n4: "CHR ''='' \<notin> set (w_text v)"
    and d: "p0_duplicate_file_descriptors st = ((a, b, c), st1)"
    and r: "p0_apply_redirections k sc st1 = (r, st2)" and rn: "r \<noteq> - 1"
    and f: "k_fork k (world st2) = Some (pid, w)"
    and x: "p0_exec_child k (w_text v) (get_argv sc) (child_of st2 pid w) = (cstatus, ch)"
  shows "p0_parse_simple k (Some sc) st =
           (Returns (WEXITSTATUS cstatus),
            p0_restore_file_descriptors a b c
              (log (Waited pid cstatus) (st2\<lparr>trace := trace ch, world := world ch\<rparr>)))"
proof -
  have w: "sys_waitpid pid (after_child pid cstatus ch st2) =
             (Some cstatus, log (Waited pid cstatus) (st2\<lparr>trace := trace ch, world := world ch\<rparr>))"
    by (simp add: sys_waitpid_def after_child_def)
  show ?thesis
    unfolding p0_parse_simple_def
    by (simp add: v get_word_def d r rn n1 n2 n3 n4 f x w del: set_simps)
qed

subsection \<open>The built-in \<^verbatim>\<open>cd\<close>\<close>

lemma shell_cd_True:
  "shell_cd k dir s = (True, s') \<Longrightarrow>
     \<exists>d. dir = [d] \<and> k_chdir k (world s) (cwd s) (w_text d) = Some (cwd s')"
  by (cases dir; cases "tl dir")
     (auto simp: shell_cd_def sys_chdir_def split: option.splits if_splits)

lemma shell_cd_args:
  "length dir \<noteq> 1 \<Longrightarrow> shell_cd k dir s = (False, s) \<and> p0_shell_cd k dir s = (True, s)"
  by (cases dir; cases "tl dir") (simp_all add: shell_cd_def p0_shell_cd_def)

lemma shell_cd_fail:
  "k_chdir k (world s) (cwd s) (w_text d) = None \<Longrightarrow>
     shell_cd k [d] s = (False, perror ''cd'' s) \<and>
     p0_shell_cd k [d] s = (False, perror ''chdir'' s)"
  by (simp add: shell_cd_def p0_shell_cd_def sys_chdir_def)

lemma shell_cd_ok:
  "k_chdir k (world s) (cwd s) (w_text d) = Some new \<Longrightarrow>
     shell_cd k [d] s = (True, s\<lparr>cwd := new\<rparr>) \<and> p0_shell_cd k [d] s = (True, s\<lparr>cwd := new\<rparr>)"
  by (simp add: shell_cd_def p0_shell_cd_def sys_chdir_def)

lemma perror_frame:
  "cwd (perror m s) = cwd s \<and> fdt (perror m s) = fdt s \<and> env (perror m s) = env s \<and>
   trace (perror m s) = trace s @ [Perror m]"
  by (simp add: perror_def log_def)

lemma parse_simple_cd:
  assumes v: "verb sc = Some v" and c: "w_text v = ''cd''"
    and d: "duplicate_file_descriptors st = ((a, b, c), st1)"
    and r: "apply_redirections k sc st1 = (r, st2)" and rn: "r \<noteq> - 1"
  shows "parse_simple k (Some sc) st =
           (Returns (if fst (shell_cd k (params sc) st2) then 0 else 1),
            restore_file_descriptors a b c (snd (shell_cd k (params sc) st2)))"
  unfolding parse_simple_def
  by (simp add: v c get_word_def d r rn split_beta)

subsection \<open>The resolver, step by step\<close>

lemma lowest_free_Some:
  "lowest_free xs = Some i \<Longrightarrow> i < length xs \<and> xs ! i = None"
proof (induction xs arbitrary: i)
  case Nil
  then show ?case by simp
next
  case (Cons x xs)
  then show ?case by (cases x) auto
qed

lemma trunc_flags: "insert O_TRUNC {O_WRONLY, O_CREAT} = {O_WRONLY, O_CREAT, O_TRUNC}"
  by auto

lemma sys_open_ok:
  assumes "lowest_free (fdt s) = Some i" and "k_open k (world s) (cwd s) f fl = Some (d, wd)"
  shows "sys_open k f fl s =
           (int i, s\<lparr>fdt := (fdt s)[i := Some d], trace := trace s @ [Open f fl (int i)],
                      world := wd\<rparr>)"
  using assms by (simp add: sys_open_def log_def)

lemma sys_open_trace: "\<exists>fd. trace (snd (sys_open k f fl s)) = trace s @ [Open f fl fd]"
  by (auto simp: sys_open_def log_def split: option.splits)

lemma redirect_merged:
  assumes lf: "lowest_free (fdt s) = Some i" and i1: "i \<noteq> 1" and i2: "i \<noteq> 2"
    and len: "3 \<le> length (fdt s)"
    and op: "k_open k (world s) (cwd s) f {O_WRONLY, O_CREAT, O_TRUNC} = Some (d, wd)"
  shows "redirect k f (STDOUT_FILENO OR STDERR_FILENO) 0 s =
           (0, s\<lparr>fdt := (fdt s)[i := Some d, 1 := Some d, 2 := Some d, i := None],
                  trace := trace s @ [Open f {O_WRONLY, O_CREAT, O_TRUNC} (int i)],
                  world := wd\<rparr>)"
proof -
  from lowest_free_Some [OF lf] have il: "i < length (fdt s)" by simp
  show ?thesis
    using il i1 i2 len
    by (simp add: redirect_def trunc_flags sys_open_ok [OF lf op] STDIN_FILENO_def
        STDOUT_FILENO_def STDERR_FILENO_def dup_fd_def sys_dup2_def valid_fd_def sys_close_def
        Let_def)
qed

lemma p0_redirect_merged:
  assumes lf: "lowest_free (fdt s) = Some i" and i1: "i \<noteq> 1" and i2: "i \<noteq> 2"
    and len: "3 \<le> length (fdt s)"
    and op: "k_open k (world s) (cwd s) f {O_WRONLY, O_CREAT, O_TRUNC} = Some (d, wd)"
  shows "p0_redirect_output_stderr k f s =
           (0, s\<lparr>fdt := (fdt s)[i := Some d, 1 := Some d, 2 := Some d, i := None],
                  trace := trace s @ [Open f {O_WRONLY, O_CREAT, O_TRUNC} (int i)],
                  world := wd\<rparr>)"
proof -
  from lowest_free_Some [OF lf] have il: "i < length (fdt s)" by simp
  show ?thesis
    using il i1 i2 len
    by (simp add: p0_redirect_output_stderr_def sys_open_ok [OF lf op]
        STDOUT_FILENO_def STDERR_FILENO_def sys_dup2_def valid_fd_def sys_close_def
        Let_def)
qed


lemma input_stage:
  assumes "apply_redirections k (sc\<lparr>out := None, err := None\<rparr>) st = (r0, st1)"
  shows "(case get_word (inp sc) of Some i \<Rightarrow> redirect k i STDIN_FILENO 0 st | None \<Rightarrow> (0, st))
           = (r0, st1)"
  using assms
  by (simp add: apply_redirections_def split_beta prod_eq_iff split: if_splits)

lemma p0_redirect_input_result: "fst (p0_redirect_input k f s) = 0 \<or> fst (p0_redirect_input k f s) = - 1"
  by (simp add: p0_redirect_input_def split_beta)

lemma p0_input_stage:
  assumes "p0_apply_redirections k (sc\<lparr>out := None, err := None\<rparr>) st = (r0, st1)"
    and "r0 \<noteq> - 1"
  shows "(case get_word (inp sc) of Some i \<Rightarrow> p0_redirect_input k i st | None \<Rightarrow> (0, st))
           = (0, st1)"
proof (cases "get_word (inp sc)")
  case None
  with assms show ?thesis
    by (simp add: p0_apply_redirections_def)
next
  case (Some f)
  with assms p0_redirect_input_result [of k f st] show ?thesis
    by (auto simp: p0_apply_redirections_def split_beta prod_eq_iff split: if_splits)
qed

lemma apply_redirections_merged:
  assumes "out sc = Some w" and "err sc = Some w'" and "w_addr w' = w_addr w"
    and "apply_redirections k (sc\<lparr>out := None, err := None\<rparr>) st = (r0, st1)" and "r0 \<noteq> - 1"
  shows "apply_redirections k sc st = redirect k (w_text w) (STDOUT_FILENO OR STDERR_FILENO) 0 st1"
  using assms(1,2,3,5) input_stage [OF assms(4)]
  by (simp add: apply_redirections_def ptr_eq_def get_word_def)

lemma p0_apply_redirections_merged:
  assumes "out sc = Some w" and "err sc = Some w'" and "w_addr w' = w_addr w"
    and "p0_apply_redirections k (sc\<lparr>out := None, err := None\<rparr>) st = (r0, st1)" and "r0 \<noteq> - 1"
  shows "p0_apply_redirections k sc st = (0, snd (p0_redirect_output_stderr k (w_text w) st1))"
  using assms(1,2,3) p0_input_stage [OF assms(4,5)]
  by (simp add: p0_apply_redirections_def ptr_eq_def get_word_def)

lemma apply_redirections_split:
  assumes "out sc = Some w" and "w_addr w2 \<noteq> w_addr w"
    and "apply_redirections k (sc\<lparr>out := None, err := None\<rparr>) st = (r0, st1)" and "r0 \<noteq> - 1"
  shows "apply_redirections k (sc\<lparr>err := Some w2\<rparr>) st =
           redirect k (w_text w) STDOUT_FILENO (io_flags sc AND IO_OUT_APPEND k)
             (snd (redirect k (w_text w2) STDERR_FILENO (io_flags sc AND IO_ERR_APPEND k) st1))"
  using assms(1,2,4) input_stage [OF assms(3)]
  by (simp add: apply_redirections_def ptr_eq_def get_word_def split_beta)

lemma p0_apply_redirections_split:
  assumes "out sc = Some w" and "w_addr w2 \<noteq> w_addr w"
    and "p0_apply_redirections k (sc\<lparr>out := None, err := None\<rparr>) st = (r0, st1)" and "r0 \<noteq> - 1"
  shows "p0_apply_redirections k (sc\<lparr>err := Some w2\<rparr>) st =
           p0_redirect_output k (w_text w) (io_flags sc AND IO_OUT_APPEND k)
             (snd (p0_redirect_stderr k (w_text w2) (io_flags sc AND IO_ERR_APPEND k) st1))"
  using assms(1,2) p0_input_stage [OF assms(3,4)]
  by (simp add: p0_apply_redirections_def ptr_eq_def get_word_def split_beta)

lemma redirect_one_open:
  assumes "descriptor \<noteq> STDIN_FILENO"
  shows "\<exists>t. trace (snd (redirect k f descriptor a s)) = trace s @ t \<and> length (filter is_open t) = 1"
proof -
  let ?fl = "if a \<noteq> 0 then insert O_APPEND {O_WRONLY, O_CREAT} else insert O_TRUNC {O_WRONLY, O_CREAT}"
  obtain fd s1 where o: "sys_open k f ?fl s = (fd, s1)" by (cases "sys_open k f ?fl s")
  from sys_open_trace [of k f ?fl s] o obtain fd' where t1: "trace s1 = trace s @ [Open f ?fl fd']"
    by auto
  have d: "\<And>x y z. trace (snd (dup_fd x y z)) = trace z \<or> trace (snd (dup_fd x y z)) = trace z @ [Perror ''dup2'']"
    by (simp add: dup_fd_def sys_dup2_def sys_close_def perror_def log_def Let_def split_beta)
  show ?thesis
  proof (cases "fd = - 1")
    case True
    with o t1 assms show ?thesis
      by (simp add: redirect_def Let_def perror_def log_def)
  next
    case False
    let ?s2 = "if descriptor AND STDOUT_FILENO \<noteq> 0 then snd (dup_fd fd STDOUT_FILENO s1) else s1"
    let ?s3 = "if descriptor AND STDERR_FILENO \<noteq> 0 then snd (dup_fd fd STDERR_FILENO ?s2) else ?s2"
    have r: "trace (snd (redirect k f descriptor a s)) = trace ?s3"
      using o False assms
      by (simp add: redirect_def Let_def split_beta sys_close_def)
    from d [of fd STDOUT_FILENO s1]
    have "\<exists>t. trace ?s2 = trace s1 @ t \<and> filter is_open t = []"
      by (cases "descriptor AND STDOUT_FILENO \<noteq> 0") auto
    then obtain t2 where t2: "trace ?s2 = trace s1 @ t2" "filter is_open t2 = []" by blast
    from d [of fd STDERR_FILENO ?s2]
    have "\<exists>t. trace ?s3 = trace ?s2 @ t \<and> filter is_open t = []"
      by (cases "descriptor AND STDERR_FILENO \<noteq> 0") auto
    then obtain t3 where t3: "trace ?s3 = trace ?s2 @ t3" "filter is_open t3 = []" by blast
    have "trace ?s3 = trace s @ ([Open f ?fl fd'] @ t2 @ t3)"
      using t1 t2(1) t3(1) by simp
    moreover have "length (filter is_open ([Open f ?fl fd'] @ t2 @ t3)) = 1"
      using t2(2) t3(2) by simp
    ultimately show ?thesis using r by metis
  qed
qed


lemma p0_redirect_stderr_one_open:
  "\<exists>t. trace (snd (p0_redirect_stderr k f a s)) = trace s @ t \<and> length (filter is_open t) = 1"
proof -
  let ?fl = "if a \<noteq> 0 then insert O_APPEND {O_WRONLY, O_CREAT} else insert O_TRUNC {O_WRONLY, O_CREAT}"
  obtain fd s1 where o: "sys_open k f ?fl s = (fd, s1)" by (cases "sys_open k f ?fl s")
  from sys_open_trace [of k f ?fl s] o obtain fd' where t1: "trace s1 = trace s @ [Open f ?fl fd']"
    by auto
  have "trace (snd (p0_redirect_stderr k f a s)) = trace s @ [Open f ?fl fd'] \<or>
        (\<exists>m. trace (snd (p0_redirect_stderr k f a s)) = trace s @ [Open f ?fl fd', Perror m])"
    using o t1
    by (simp add: p0_redirect_stderr_def Let_def split_beta sys_close_def sys_dup2_def
        perror_def log_def)
  then show ?thesis by (elim disjE exE) (rule exI, erule conjI, simp)+
qed

lemma p0_redirect_output_one_open:
  "\<exists>t. trace (snd (p0_redirect_output k f a s)) = trace s @ t \<and> length (filter is_open t) = 1"
proof -
  let ?fl = "if a \<noteq> 0 then insert O_APPEND {O_WRONLY, O_CREAT} else insert O_TRUNC {O_WRONLY, O_CREAT}"
  obtain fd s1 where o: "sys_open k f ?fl s = (fd, s1)" by (cases "sys_open k f ?fl s")
  from sys_open_trace [of k f ?fl s] o obtain fd' where t1: "trace s1 = trace s @ [Open f ?fl fd']"
    by auto
  have "trace (snd (p0_redirect_output k f a s)) = trace s @ [Open f ?fl fd'] \<or>
        (\<exists>m. trace (snd (p0_redirect_output k f a s)) = trace s @ [Open f ?fl fd', Printf m])"
    using o t1
    by (simp add: p0_redirect_output_def Let_def split_beta sys_close_def sys_dup2_def
        printf_def log_def)
  then show ?thesis by (elim disjE exE) (rule exI, erule conjI, simp)+
qed

lemma two_opens:
  assumes "\<exists>t. trace s2 = trace s1 @ t \<and> length (filter is_open t) = 1"
    and "\<exists>t. trace s3 = trace s2 @ t \<and> length (filter is_open t) = 1"
  shows "\<exists>t. trace s3 = trace s1 @ t \<and> length (filter is_open t) = 2"
proof -
  from assms obtain t1 t2 where "trace s2 = trace s1 @ t1" "length (filter is_open t1) = 1"
    "trace s3 = trace s2 @ t2" "length (filter is_open t2) = 1" by blast
  then have "trace s3 = trace s1 @ (t1 @ t2) \<and> length (filter is_open (t1 @ t2)) = 2" by simp
  then show ?thesis by blast
qed

text \<open>
  The input stage when the file can be opened: the file takes the lowest free
  descriptor \<open>i\<close>, is bound to descriptor 0 and \<open>i\<close> is closed again, so \<open>i\<close> is still the
  lowest free descriptor afterwards.
\<close>

lemma lowest_free_stdin:
  "lowest_free xs = Some i \<Longrightarrow> i \<noteq> 0 \<Longrightarrow> lowest_free (xs[0 := Some d]) = Some i"
  by (cases xs) (auto split: option.splits)

lemma input_table:
  assumes "lowest_free xs = Some i"
  shows "xs[i := Some d0, 0 := Some d0, i := None] = (if i = 0 then xs else xs[0 := Some d0])"
proof (cases "i = 0")
  case True
  with lowest_free_Some [OF assms] show ?thesis by (simp add: list_update_same_conv)
next
  case False
  from lowest_free_Some [OF assms] have "i < length xs" "xs ! i = None" by simp_all
  with False list_update_id [of xs i] show ?thesis
    by (simp add: list_update_swap [of 0 i])
qed

lemma redirect_input_ok:
  assumes lf: "lowest_free (fdt s) = Some i"
    and op: "k_open k (world s) (cwd s) f {O_RDONLY} = Some (d0, w0)"
  shows "redirect k f STDIN_FILENO 0 s =
           (0, s\<lparr>fdt := (fdt s)[i := Some d0, 0 := Some d0, i := None],
                  trace := trace s @ [Open f {O_RDONLY} (int i)], world := w0\<rparr>)"
proof -
  from lowest_free_Some [OF lf] have il: "i < length (fdt s)" by simp
  then have ne: "fdt s \<noteq> []" by auto
  have v: "(fdt s)[i := Some d0, 0 := Some d0] ! i = Some d0"
    using il by (cases "i = 0") simp_all
  show ?thesis
    using il ne v
    by (simp add: redirect_def sys_open_ok [OF lf op] STDIN_FILENO_def dup_fd_def sys_dup2_def
        valid_fd_def sys_close_def Let_def)
qed

lemma p0_redirect_input_ok:
  assumes lf: "lowest_free (fdt s) = Some i"
    and op: "k_open k (world s) (cwd s) f {O_RDONLY} = Some (d0, w0)"
  shows "p0_redirect_input k f s =
           (0, s\<lparr>fdt := (fdt s)[i := Some d0, 0 := Some d0, i := None],
                  trace := trace s @ [Open f {O_RDONLY} (int i)], world := w0\<rparr>)"
proof -
  from lowest_free_Some [OF lf] have il: "i < length (fdt s)" by simp
  then have ne: "fdt s \<noteq> []" by auto
  have v: "(fdt s)[i := Some d0, 0 := Some d0] ! i = Some d0"
    using il by (cases "i = 0") simp_all
  show ?thesis
    using il ne v
    by (simp add: p0_redirect_input_def sys_open_ok [OF lf op] STDIN_FILENO_def sys_dup2_def
        valid_fd_def sys_close_def Let_def)
qed

lemma resolver_input_only:
  "resolver var k (sc\<lparr>out := None, err := None\<rparr>) st =
     (case inp sc of
        None \<Rightarrow> (0, st)
      | Some wi \<Rightarrow> (case var of Cmd_c \<Rightarrow> redirect k (w_text wi) STDIN_FILENO 0 st
                                | Part_000 \<Rightarrow> p0_redirect_input k (w_text wi) st))"
  by (cases var; cases "inp sc")
     (auto simp: resolver_def apply_redirections_def p0_apply_redirections_def get_word_def
       split_beta prod_eq_iff)

lemma input_stage_ok:
  assumes lf0: "lowest_free (fdt st) = Some i"
    and inp: "case inp sc of
           None \<Rightarrow> tin = [] \<and> w0 = world st
         | Some wi \<Rightarrow>
             tin = [Open (w_text wi) {O_RDONLY} (int i)] \<and>
             (\<exists>d0. k_open k (world st) (cwd st) (w_text wi) {O_RDONLY} = Some (d0, w0))"
  obtains st1 where "resolver var k (sc\<lparr>out := None, err := None\<rparr>) st = (0, st1)"
    and "lowest_free (fdt st1) = Some i" and "length (fdt st1) = length (fdt st)"
    and "trace st1 = trace st @ tin" and "world st1 = w0" and "cwd st1 = cwd st"
proof (cases "inp sc")
  case None
  with inp have e: "tin = []" "w0 = world st" by simp_all
  from None have "resolver var k (sc\<lparr>out := None, err := None\<rparr>) st = (0, st)"
    by (simp add: resolver_input_only)
  then show ?thesis
    by (rule that) (simp_all add: lf0 e)
next
  case (Some wi)
  with inp obtain d0 where tin: "tin = [Open (w_text wi) {O_RDONLY} (int i)]"
    and op: "k_open k (world st) (cwd st) (w_text wi) {O_RDONLY} = Some (d0, w0)"
    by auto
  let ?st1 = "st\<lparr>fdt := (fdt st)[i := Some d0, 0 := Some d0, i := None],
                  trace := trace st @ [Open (w_text wi) {O_RDONLY} (int i)], world := w0\<rparr>"
  have "resolver var k (sc\<lparr>out := None, err := None\<rparr>) st = (0, ?st1)"
  proof (cases var)
    case Cmd_c
    with Some redirect_input_ok [OF lf0 op] show ?thesis by (simp add: resolver_input_only)
  next
    case Part_000
    with Some p0_redirect_input_ok [OF lf0 op] show ?thesis by (simp add: resolver_input_only)
  qed
  moreover have "lowest_free (fdt ?st1) = Some i"
    using lf0 by (simp add: input_table [OF lf0] lowest_free_stdin)
  ultimately show ?thesis
    by (rule that) (simp_all add: tin)
qed

text \<open>
  The stage after the input stage, for a shared target, from any state \<open>st1\<close> the input
  stage leaves.
\<close>

lemma merged_after_input_stage:
  assumes "out sc = Some w" and "err sc = Some w'" and "w_addr w' = w_addr w"
    and "resolver var k (sc\<lparr>out := None, err := None\<rparr>) st = (r0, st1)" and "r0 \<noteq> - 1"
    and "lowest_free (fdt st1) = Some i" and "i \<noteq> 1" and "i \<noteq> 2" and "3 \<le> length (fdt st1)"
    and "k_open k (world st1) (cwd st1) (w_text w) {O_WRONLY, O_CREAT, O_TRUNC} = Some (d, wd)"
  shows "(\<exists>st'. resolver var k sc st = (0, st') \<and>
            trace st' = trace st1 @ [Open (w_text w) {O_WRONLY, O_CREAT, O_TRUNC} (int i)] \<and>
            fdt st' ! 1 = Some d \<and> fdt st' ! 2 = Some d)
         \<and> (\<forall>w2. w_addr w2 \<noteq> w_addr w \<longrightarrow>
              (\<exists>t. trace (snd (resolver var k (sc\<lparr>err := Some w2\<rparr>) st)) = trace st1 @ t \<and>
                    length (filter is_open t) = 2))"
proof (cases var)
  case Cmd_c
  from lowest_free_Some [OF assms(6)] have il: "i < length (fdt st1)" by simp
  from assms(4) Cmd_c
  have inp: "apply_redirections k (sc\<lparr>out := None, err := None\<rparr>) st = (r0, st1)"
    by (simp add: resolver_def)
  have "apply_redirections k sc st = redirect k (w_text w) (STDOUT_FILENO OR STDERR_FILENO) 0 st1"
    by (rule apply_redirections_merged [OF assms(1,2,3) inp assms(5)])
  also note redirect_merged [OF assms(6,7,8,9,10)]
  finally have m: "\<exists>st'. resolver var k sc st = (0, st') \<and>
            trace st' = trace st1 @ [Open (w_text w) {O_WRONLY, O_CREAT, O_TRUNC} (int i)] \<and>
            fdt st' ! 1 = Some d \<and> fdt st' ! 2 = Some d"
    using il assms(7,8,9) Cmd_c by (simp add: resolver_def)
  have "\<exists>t. trace (snd (resolver var k (sc\<lparr>err := Some w2\<rparr>) st)) = trace st1 @ t \<and>
             length (filter is_open t) = 2" if d: "w_addr w2 \<noteq> w_addr w" for w2
  proof -
    let ?s2 = "snd (redirect k (w_text w2) STDERR_FILENO (io_flags sc AND IO_ERR_APPEND k) st1)"
    have e: "apply_redirections k (sc\<lparr>err := Some w2\<rparr>) st =
               redirect k (w_text w) STDOUT_FILENO (io_flags sc AND IO_OUT_APPEND k) ?s2"
      by (rule apply_redirections_split [OF assms(1) d inp assms(5)])
    have "\<exists>t. trace (snd (redirect k (w_text w) STDOUT_FILENO (io_flags sc AND IO_OUT_APPEND k) ?s2))
               = trace st1 @ t \<and> length (filter is_open t) = 2"
      by (rule two_opens; rule redirect_one_open)
         (simp_all add: STDIN_FILENO_def STDOUT_FILENO_def STDERR_FILENO_def)
    with e Cmd_c show ?thesis by (simp add: resolver_def)
  qed
  with m show ?thesis by blast
next
  case Part_000
  from lowest_free_Some [OF assms(6)] have il: "i < length (fdt st1)" by simp
  from assms(4) Part_000
  have inp: "p0_apply_redirections k (sc\<lparr>out := None, err := None\<rparr>) st = (r0, st1)"
    by (simp add: resolver_def)
  have "p0_apply_redirections k sc st = (0, snd (p0_redirect_output_stderr k (w_text w) st1))"
    by (rule p0_apply_redirections_merged [OF assms(1,2,3) inp assms(5)])
  then have m: "\<exists>st'. resolver var k sc st = (0, st') \<and>
            trace st' = trace st1 @ [Open (w_text w) {O_WRONLY, O_CREAT, O_TRUNC} (int i)] \<and>
            fdt st' ! 1 = Some d \<and> fdt st' ! 2 = Some d"
    using il assms(7,8,9) Part_000 p0_redirect_merged [OF assms(6,7,8,9,10)]
    by (simp add: resolver_def)
  have "\<exists>t. trace (snd (resolver var k (sc\<lparr>err := Some w2\<rparr>) st)) = trace st1 @ t \<and>
             length (filter is_open t) = 2" if d: "w_addr w2 \<noteq> w_addr w" for w2
  proof -
    let ?s2 = "snd (p0_redirect_stderr k (w_text w2) (io_flags sc AND IO_ERR_APPEND k) st1)"
    have e: "p0_apply_redirections k (sc\<lparr>err := Some w2\<rparr>) st =
               p0_redirect_output k (w_text w) (io_flags sc AND IO_OUT_APPEND k) ?s2"
      by (rule p0_apply_redirections_split [OF assms(1) d inp assms(5)])
    have "\<exists>t. trace (snd (p0_redirect_output k (w_text w) (io_flags sc AND IO_OUT_APPEND k) ?s2))
               = trace st1 @ t \<and> length (filter is_open t) = 2"
      by (rule two_opens, rule p0_redirect_stderr_one_open, rule p0_redirect_output_one_open)
    with e Part_000 show ?thesis by (simp add: resolver_def)
  qed
  with m show ?thesis by blast
qed

subsection \<open>The descriptor table around a simple command\<close>

lemma lowest_free_least: "lowest_free xs = Some i \<Longrightarrow> j < i \<Longrightarrow> xs ! j \<noteq> None"
proof (induction xs arbitrary: i j)
  case Nil
  then show ?case by simp
next
  case (Cons x xs)
  then show ?case by (cases x; cases j) auto
qed

lemma lowest_free_ge3:
  assumes "streams_open s" and "lowest_free (fdt s) = Some i"
  shows "3 \<le> i"
proof (rule ccontr)
  assume "\<not> 3 \<le> i"
  then have "i = 0 \<or> i = 1 \<or> i = 2" by arith
  with lowest_free_Some [OF assms(2)] assms(1) show False
    by (auto simp: streams_open_def)
qed

lemma same_above_refl: "same_above s s"
  by (simp add: same_above_def)

lemma same_above_trans: "same_above s s' \<Longrightarrow> same_above s' s'' \<Longrightarrow> same_above s s''"
  by (simp add: same_above_def)

lemma dup_fd_frame:
  assumes "streams_open s" and "d = 0 \<or> d = 1 \<or> d = 2" and "3 \<le> i" and "i < length (fdt s)"
    and "fdt s ! i \<noteq> None"
  shows "streams_open (snd (dup_fd (int i) d s)) \<and> same_above s (snd (dup_fd (int i) d s))"
  using assms
  by (auto simp: dup_fd_def sys_dup2_def valid_fd_def streams_open_def same_above_def nth_list_update)

lemma sys_open_frame:
  assumes "streams_open s" and "sys_open k f fl s = (fd, s1)"
  shows "(fd = - 1 \<and> fdt s1 = fdt s) \<or>
         (\<exists>i d. fd = int i \<and> 3 \<le> i \<and> i < length (fdt s) \<and> fdt s ! i = None \<and>
                 fdt s1 = (fdt s)[i := Some d])"
proof (cases "lowest_free (fdt s)")
  case None
  with assms(2) show ?thesis by (auto simp: sys_open_def log_def)
next
  case (Some i)
  from lowest_free_ge3 [OF assms(1) Some] lowest_free_Some [OF Some] Some assms(2)
  show ?thesis
    by (auto simp: sys_open_def log_def split: option.splits)
qed


lemma redirect_frame:
  assumes so: "streams_open s"
  shows "streams_open (snd (redirect k f dsc a s)) \<and> same_above s (snd (redirect k f dsc a s))"
proof (cases "dsc = STDIN_FILENO")
  case True
  obtain fd s1 where o: "sys_open k f {O_RDONLY} s = (fd, s1)" by (cases "sys_open k f {O_RDONLY} s")
  from sys_open_frame [OF so o] show ?thesis
  proof (elim disjE exE conjE)
    assume "fd = - 1" "fdt s1 = fdt s"
    with so o True show ?thesis
      by (simp add: redirect_def perror_def log_def streams_open_def same_above_def)
  next
    fix i d
    assume h: "fd = int i" "3 \<le> i" "i < length (fdt s)" "fdt s ! i = None"
      "fdt s1 = (fdt s)[i := Some d]"
    with so o True show ?thesis
      by (auto simp: redirect_def STDIN_FILENO_def dup_fd_def sys_dup2_def valid_fd_def sys_close_def
          streams_open_def same_above_def nth_list_update Let_def)
  qed
next
  case False
  let ?fl = "if a \<noteq> 0 then insert O_APPEND {O_WRONLY, O_CREAT} else insert O_TRUNC {O_WRONLY, O_CREAT}"
  obtain fd s1 where o: "sys_open k f ?fl s = (fd, s1)" by (cases "sys_open k f ?fl s")
  from sys_open_frame [OF so o] show ?thesis
  proof (elim disjE exE conjE)
    assume "fd = - 1" "fdt s1 = fdt s"
    with so o False show ?thesis
      by (simp add: redirect_def perror_def log_def streams_open_def same_above_def Let_def)
  next
    fix i d
    assume h: "fd = int i" "3 \<le> i" "i < length (fdt s)" "fdt s ! i = None"
      "fdt s1 = (fdt s)[i := Some d]"
    with so o False show ?thesis
      by (auto simp: redirect_def STDOUT_FILENO_def STDERR_FILENO_def dup_fd_def sys_dup2_def
          valid_fd_def sys_close_def streams_open_def same_above_def nth_list_update Let_def)
  qed
qed


lemma apply_redirections_frame:
  assumes so: "streams_open s"
  shows "streams_open (snd (apply_redirections k sc s)) \<and>
         same_above s (snd (apply_redirections k sc s))"
proof -
  have F1: "\<And>s' f d a. streams_open s' \<Longrightarrow> streams_open (snd (redirect k f d a s'))"
    using redirect_frame by blast
  have F2: "\<And>s' f d a. streams_open s' \<Longrightarrow> same_above s s' \<Longrightarrow>
              same_above s (snd (redirect k f d a s'))"
    using redirect_frame same_above_trans by blast
  show ?thesis
    using so
    by (simp add: apply_redirections_def get_word_def split_beta Let_def F1 F2 same_above_refl
        split: option.splits)
qed


lemma sys_dup_ok:
  assumes so: "streams_open s" and fd: "fd = 0 \<or> fd = 1 \<or> fd = 2"
    and d: "sys_dup fd s = (r, s1)" and r: "r \<noteq> - 1"
  obtains i where "r = int i" "3 \<le> i" "i < length (fdt s)" "fdt s ! i = None"
    "s1 = s\<lparr>fdt := (fdt s)[i := fdt s ! nat fd]\<rparr>"
proof (cases "lowest_free (fdt s)")
  case None
  with d r show ?thesis by (simp add: sys_dup_def split: if_splits)
next
  case (Some i)
  from lowest_free_ge3 [OF so Some] lowest_free_Some [OF Some] Some d r that [of i]
  show ?thesis
    by (auto simp: sys_dup_def split: if_splits)
qed

lemma streams_open_update:
  "streams_open s \<Longrightarrow> 3 \<le> i \<Longrightarrow> streams_open (s\<lparr>fdt := (fdt s)[i := x]\<rparr>)"
  by (simp add: streams_open_def)

lemma duplicate_ok:
  assumes so: "streams_open s"
    and d: "duplicate_file_descriptors s = ((a, b, c), st1)"
    and ok: "a \<noteq> - 1" "b \<noteq> - 1" "c \<noteq> - 1"
  obtains i j l where "a = int i" "b = int j" "c = int l" "3 \<le> i" "3 \<le> j" "3 \<le> l"
    "i \<noteq> j" "i \<noteq> l" "j \<noteq> l" "i < length (fdt s)" "j < length (fdt s)" "l < length (fdt s)"
    "fdt s ! i = None" "fdt s ! j = None" "fdt s ! l = None"
    "st1 = s\<lparr>fdt := (fdt s)[i := fdt s ! 0, j := fdt s ! 1, l := fdt s ! 2]\<rparr>"
proof -
  obtain a' s1 where d1: "sys_dup STDIN_FILENO s = (a', s1)" by (cases "sys_dup STDIN_FILENO s")
  obtain b' s2 where d2: "sys_dup STDOUT_FILENO s1 = (b', s2)" by (cases "sys_dup STDOUT_FILENO s1")
  obtain c' s3 where d3: "sys_dup STDERR_FILENO s2 = (c', s3)" by (cases "sys_dup STDERR_FILENO s2")
  from d d1 d2 d3 have abc: "a' = a \<and> b' = b \<and> c' = c"
    by (simp add: duplicate_file_descriptors_def Let_def split_beta split: if_splits)
  with d d1 d2 d3 ok have e: "a' = a" "b' = b" "c' = c" "st1 = s3"
    by (simp_all add: duplicate_file_descriptors_def Let_def)
  from sys_dup_ok [OF so _ d1] e ok obtain i where
    i: "a = int i" "3 \<le> i" "i < length (fdt s)" "fdt s ! i = None"
      "s1 = s\<lparr>fdt := (fdt s)[i := fdt s ! 0]\<rparr>"
    by (auto simp: STDIN_FILENO_def)
  have so1: "streams_open s1" using so i by (simp add: streams_open_update)
  from sys_dup_ok [OF so1 _ d2] e ok obtain j where
    j: "b = int j" "3 \<le> j" "j < length (fdt s1)" "fdt s1 ! j = None"
      "s2 = s1\<lparr>fdt := (fdt s1)[j := fdt s1 ! 1]\<rparr>"
    by (auto simp: STDOUT_FILENO_def)
  have so2: "streams_open s2" using so1 j by (simp add: streams_open_update)
  from sys_dup_ok [OF so2 _ d3] e ok obtain l where
    l: "c = int l" "3 \<le> l" "l < length (fdt s2)" "fdt s2 ! l = None"
      "s3 = s2\<lparr>fdt := (fdt s2)[l := fdt s2 ! 2]\<rparr>"
    by (auto simp: STDERR_FILENO_def)
  have open0: "fdt s ! 0 \<noteq> None" "fdt s ! 1 \<noteq> None" "fdt s ! 2 \<noteq> None"
    using so by (simp_all add: streams_open_def)
  have f1: "fdt s1 = (fdt s)[i := fdt s ! 0]" using i(5) by simp
  have ij: "i \<noteq> j"
  proof
    assume "i = j"
    with j(4) f1 i(3) open0 show False by simp
  qed
  have nj: "fdt s ! j = None" using j(4) f1 ij by simp
  have s11: "fdt s1 ! 1 = fdt s ! 1" using f1 i(2) by simp
  have f2: "fdt s2 = (fdt s)[i := fdt s ! 0, j := fdt s ! 1]" using j(5) f1 s11 by simp
  have jl: "j \<noteq> l"
  proof
    assume "j = l"
    with l(4) f2 j(3) f1 open0 show False by simp
  qed
  have il: "i \<noteq> l"
  proof
    assume "i = l"
    with l(4) f2 i(3) ij open0 show False by simp
  qed
  have nl: "fdt s ! l = None" using l(4) f2 il jl by simp
  have s22: "fdt s2 ! 2 = fdt s ! 2" using f2 i(2) j(2) by simp
  have st: "st1 = s\<lparr>fdt := (fdt s)[i := fdt s ! 0, j := fdt s ! 1, l := fdt s ! 2]\<rparr>"
    using e(4) l(5) j(5) i(5) f2 s22 s11 by simp
  have jlen: "j < length (fdt s)" using j(3) f1 by simp
  have llen: "l < length (fdt s)" using l(3) f2 by simp
  show ?thesis
    by (rule that [OF i(1) j(1) l(1) i(2) j(2) l(2) ij il jl i(3) jlen llen i(4) nj nl st])
qed

lemma dup_fd_ok:
  assumes "i < length (fdt s)" and "fdt s ! i \<noteq> None" and "d < length (fdt s)"
  shows "dup_fd (int i) (int d) s = (0, s\<lparr>fdt := (fdt s)[d := fdt s ! i]\<rparr>)"
  using assms by (simp add: dup_fd_def sys_dup2_def valid_fd_def)

lemma sys_close_ok:
  assumes "i < length (fdt s)" and "fdt s ! i \<noteq> None"
  shows "sys_close (int i) s = (0, s\<lparr>fdt := (fdt s)[i := None]\<rparr>)"
  using assms by (simp add: sys_close_def valid_fd_def)


lemma restore_fdt:
  assumes so: "streams_open s"
    and d: "duplicate_file_descriptors s = ((a, b, c), st1)"
    and ok: "a \<noteq> - 1" "b \<noteq> - 1" "c \<noteq> - 1"
    and sa: "same_above st1 s'"
  shows "fdt (restore_file_descriptors a b c s') = fdt s"
proof -
  from so d ok obtain i j l where
    h: "a = int i" "b = int j" "c = int l" and ge: "3 \<le> i" "3 \<le> j" "3 \<le> l"
    and ne: "i \<noteq> j" "i \<noteq> l" "j \<noteq> l"
    and lt: "i < length (fdt s)" "j < length (fdt s)" "l < length (fdt s)"
    and free: "fdt s ! i = None" "fdt s ! j = None" "fdt s ! l = None"
    and st1: "st1 = s\<lparr>fdt := (fdt s)[i := fdt s ! 0, j := fdt s ! 1, l := fdt s ! 2]\<rparr>"
    by (rule duplicate_ok)
  let ?x0 = "fdt s ! 0" and ?x1 = "fdt s ! 1" and ?x2 = "fdt s ! 2"
  have open0: "?x0 \<noteq> None" "?x1 \<noteq> None" "?x2 \<noteq> None" "3 \<le> length (fdt s)"
    using so by (simp_all add: streams_open_def)
  have len: "length (fdt s') = length (fdt s)"
    using sa st1 by (simp add: same_above_def)
  have above: "\<And>n. 3 \<le> n \<Longrightarrow> fdt s' ! n = (fdt s)[i := ?x0, j := ?x1, l := ?x2] ! n"
    using sa st1 by (simp add: same_above_def)
  have at: "fdt s' ! i = ?x0" "fdt s' ! j = ?x1" "fdt s' ! l = ?x2"
    using above [OF ge(1)] above [OF ge(2)] above [OF ge(3)] ne lt by simp_all
  let ?s1 = "s'\<lparr>fdt := (fdt s')[0 := ?x0]\<rparr>"
  let ?s2 = "s'\<lparr>fdt := (fdt s')[0 := ?x0, 1 := ?x1]\<rparr>"
  let ?s3 = "s'\<lparr>fdt := (fdt s')[0 := ?x0, 1 := ?x1, 2 := ?x2]\<rparr>"
  let ?s4 = "s'\<lparr>fdt := (fdt s')[0 := ?x0, 1 := ?x1, 2 := ?x2, i := None]\<rparr>"
  let ?s5 = "s'\<lparr>fdt := (fdt s')[0 := ?x0, 1 := ?x1, 2 := ?x2, i := None, j := None]\<rparr>"
  let ?s6 = "s'\<lparr>fdt := (fdt s')[0 := ?x0, 1 := ?x1, 2 := ?x2, i := None, j := None, l := None]\<rparr>"
  have pos: "0 < length (fdt s')" "1 < length (fdt s')" "2 < length (fdt s')"
    and lt': "i < length (fdt s')" "j < length (fdt s')" "l < length (fdt s')"
    using open0(4) len lt by (simp_all del: length_greater_0_conv)
  have n0: "i \<noteq> 0" "i \<noteq> 1" "i \<noteq> 2" "j \<noteq> 0" "j \<noteq> 1" "j \<noteq> 2" "l \<noteq> 0" "l \<noteq> 1" "l \<noteq> 2"
    using ge by simp_all
  have 1: "dup_fd a STDIN_FILENO s' = (0, ?s1)"
    using dup_fd_ok [of i s' 0, OF lt'(1) _ pos(1)] h(1) at open0
    by (simp add: STDIN_FILENO_def)
  have 2: "dup_fd b STDOUT_FILENO ?s1 = (0, ?s2)"
    using dup_fd_ok [of j ?s1 1] h(2) lt' pos at open0 n0
    by (simp add: STDOUT_FILENO_def)
  have 3: "dup_fd c STDERR_FILENO ?s2 = (0, ?s3)"
    using dup_fd_ok [of l ?s2 2] h(3) lt' pos at open0 n0
    by (simp add: STDERR_FILENO_def)
  have 4: "sys_close a ?s3 = (0, ?s4)"
    using sys_close_ok [of i ?s3] h(1) lt' pos at open0 n0 by simp
  have 5: "sys_close b ?s4 = (0, ?s5)"
    using sys_close_ok [of j ?s4] h(2) lt' pos at open0 n0 ne by simp
  have 6: "sys_close c ?s5 = (0, ?s6)"
    using sys_close_ok [of l ?s5] h(3) lt' pos at open0 n0 ne by simp
  have r: "fdt (restore_file_descriptors a b c s') = fdt ?s6"
    by (simp only: restore_file_descriptors_def Let_def 1 2 3 4 5 6 prod.case)
  have "fdt ?s6 = fdt s"
  proof (rule nth_equalityI)
    show "length (fdt ?s6) = length (fdt s)" using len by simp
  next
    fix n
    assume "n < length (fdt ?s6)"
    then have n: "n < length (fdt s)" using len by simp
    consider "n = 0" | "n = 1" | "n = 2" | "n = i" | "n = j" | "n = l"
      | "3 \<le> n" "n \<noteq> i" "n \<noteq> j" "n \<noteq> l"
      by arith
    then show "fdt ?s6 ! n = fdt s ! n"
    proof cases
      case 7
      with above [of n] n len show ?thesis by simp
    qed (use n len ge ne lt free open0 in simp_all)
  qed
  with r show ?thesis by simp
qed


lemma fdt_log: "fdt (log e s) = fdt s"
  by (simp add: log_def)

lemma fdt_perror: "fdt (perror m s) = fdt s"
  by (simp add: perror_def log_def)

lemma fdt_shell_cd: "fdt (snd (shell_cd k p s)) = fdt s"
  by (simp add: shell_cd_def sys_chdir_def perror_def log_def split: list.splits option.splits)

lemma fdt_parse_environment_variable: "fdt (snd (parse_environment_variable c s)) = fdt s"
  by (simp add: parse_environment_variable_def sys_setenv_def split_beta Let_def
      split: option.splits outcome.splits)

lemma fdt_after_child: "fdt (after_child pid status c s) = fdt s"
  by (simp add: after_child_def)

lemma fdt_sys_waitpid: "fdt (snd (sys_waitpid pid s)) = fdt s"
  by (simp add: sys_waitpid_def log_def split: option.splits)

lemma parse_simple_builtin_exit:
  assumes v: "verb sc = Some v" and c: "w_text v = ''exit'' \<or> w_text v = ''quit''"
    and d: "duplicate_file_descriptors st = ((a, b, c), st1)"
    and r: "apply_redirections k sc st1 = (r, st2)" and rn: "r \<noteq> - 1"
  shows "fst (parse_simple k (Some sc) st) = Exits (SHELL_EXIT k)"
  unfolding parse_simple_def
  using c by (auto simp: v get_word_def d r rn shell_exit_def)

lemma parse_simple_assign:
  assumes v: "verb sc = Some v"
    and n1: "w_text v \<noteq> ''exit''" and n2: "w_text v \<noteq> ''quit''" and n3: "w_text v \<noteq> ''cd''"
    and n4: "CHR ''='' \<in> set (w_text v)"
    and d: "duplicate_file_descriptors st = ((a, b, c), st1)"
    and r: "apply_redirections k sc st1 = (r, st2)" and rn: "r \<noteq> - 1"
    and p: "parse_environment_variable (Some (w_text v)) st2 = (Returns u, st3)"
  shows "parse_simple k (Some sc) st = (Returns 0, restore_file_descriptors a b c st3)"
  unfolding parse_simple_def
  by (simp add: v get_word_def d r rn n1 n2 n3 n4 p del: set_simps)

lemma parse_simple_assign_undefined:
  assumes v: "verb sc = Some v"
    and n1: "w_text v \<noteq> ''exit''" and n2: "w_text v \<noteq> ''quit''" and n3: "w_text v \<noteq> ''cd''"
    and n4: "CHR ''='' \<in> set (w_text v)"
    and d: "duplicate_file_descriptors st = ((a, b, c), st1)"
    and r: "apply_redirections k sc st1 = (r, st2)" and rn: "r \<noteq> - 1"
    and p: "fst (parse_environment_variable (Some (w_text v)) st2) \<noteq> Returns ()"
  shows "\<forall>x. fst (parse_simple k (Some sc) st) \<noteq> Returns x"
  unfolding parse_simple_def
  using p
  by (cases "parse_environment_variable (Some (w_text v)) st2";
      cases "fst (parse_environment_variable (Some (w_text v)) st2)")
     (simp_all add: v get_word_def d r rn n1 n2 n3 n4 del: set_simps)

lemma parse_simple_fork_failure:
  assumes v: "verb sc = Some v"
    and n1: "w_text v \<noteq> ''exit''" and n2: "w_text v \<noteq> ''quit''" and n3: "w_text v \<noteq> ''cd''"
    and n4: "CHR ''='' \<notin> set (w_text v)"
    and d: "duplicate_file_descriptors st = ((a, b, c), st1)"
    and r: "apply_redirections k sc st1 = (r, st2)" and rn: "r \<noteq> - 1"
    and f: "k_fork k (world st2) = None"
  shows "parse_simple k (Some sc) st =
           (Returns (- 1), perror ''fork'' (restore_file_descriptors a b c st2))"
  unfolding parse_simple_def
  by (simp add: v get_word_def d r rn n1 n2 n3 n4 f del: set_simps)

lemma parse_simple_no_verb:
  assumes v: "verb sc = None"
    and d: "duplicate_file_descriptors st = ((a, b, c), st1)"
    and r: "apply_redirections k sc st1 = (r, st2)" and rn: "r \<noteq> - 1"
  shows "fst (parse_simple k (Some sc) st) = Undefined"
  unfolding parse_simple_def
  by (simp add: v get_word_def d r rn)


lemma restore_after_redirections:
  assumes so: "streams_open st"
    and d: "duplicate_file_descriptors st = ((a, b, c), st1)"
    and ok: "a \<noteq> - 1" "b \<noteq> - 1" "c \<noteq> - 1"
    and ar: "apply_redirections k sc st1 = (r0, st2)"
    and eq: "fdt s' = fdt st2"
  shows "fdt (restore_file_descriptors a b c s') = fdt st"
proof -
  from so d ok obtain i j l where
    "a = int i" "b = int j" "c = int l" and ge: "3 \<le> i" "3 \<le> j" "3 \<le> l"
    and "i \<noteq> j" "i \<noteq> l" "j \<noteq> l"
    and "i < length (fdt st)" "j < length (fdt st)" "l < length (fdt st)"
    and "fdt st ! i = None" "fdt st ! j = None" "fdt st ! l = None"
    and st1: "st1 = st\<lparr>fdt := (fdt st)[i := fdt st ! 0, j := fdt st ! 1, l := fdt st ! 2]\<rparr>"
    by (rule duplicate_ok)
  have so1: "streams_open st1"
    unfolding st1 using so ge by (simp add: streams_open_def)
  have "same_above st1 (snd (apply_redirections k sc st1))"
    using apply_redirections_frame [OF so1] by blast
  then have "same_above st1 st2" unfolding ar by simp
  then have "same_above st1 s'" unfolding same_above_def eq .
  then show ?thesis by (rule restore_fdt [OF so d ok])
qed


section \<open>The status of a pipeline\<close>

text \<open>
  Claim C1, as the code has it. \<^verbatim>\<open>run_on_pipe\<close> returns a \<^verbatim>\<open>bool\<close>, and \<^verbatim>\<open>parse_command\<close>
  turns it into 0 or 1. For \<^verbatim>\<open>true | two\<close> the shell forks the left-hand child 1001 (which
  runs \<^verbatim>\<open>true\<close> as its child 1002) and the right-hand child 1003 (which runs \<^verbatim>\<open>two\<close> as
  its child 1004 and ends with its status); the right-hand child is reaped with exit
  status 2, and the Pipe node reports 1, not 2.
\<close>

theorem pipe_status_counterexample:
  "fst (parse_command demo pipe_true_two boot) = Returns 1 \<and>
   trace (snd (parse_command demo pipe_true_two boot))
     = [Forked 1001, Forked 1002, Waited 1002 (exited_with 0),
        Forked 1003, Forked 1004, Waited 1004 (exited_with 2),
        Waited 1001 (exited_with 0), Waited 1003 (exited_with 2)] \<and>
   fst (p0_parse_command demo pipe_true_two boot) = Returns 1 \<and>
   last (trace (snd (p0_parse_command demo pipe_true_two boot))) = Waited 1003 (exited_with 2)"
  by (intro conjI; code_simp)

text \<open>
  Claim C1, amended: in both variants, when the pipe and both children are created
  (under different process ids) and the second child, which evaluates the right-hand
  subtree, ends with the wait status \<open>st2\<close>, the Pipe node reports 0 if the exit status
  \<^verbatim>\<open>WEXITSTATUS(st2)\<close> of that child is 0 and 1 otherwise. The status \<open>st1\<close> of the
  left-hand child does not enter the result.
\<close>

theorem pipe_status:
  assumes "sys_pipe k s = (p, pipefd, s0)" and "p \<noteq> - 1"
    and "k_fork k (world s0) = Some (pid1, w1)"
    and "engine var k l (writer_end pipefd (child_of s0 pid1 w1)) = (r1, c1)"
    and "exit_of r1 = Some st1"
    and "k_fork k (world c1) = Some (pid2, w2)"
    and "pid1 \<noteq> pid2"
    and "engine var k r (reader_end pipefd (child_of (after_child pid1 st1 c1 s0) pid2 w2))
           = (r2, c2)"
    and "exit_of r2 = Some st2"
  shows "fst (engine var k (Command OP_PIPE sc l r) s)
           = Returns (if WEXITSTATUS st2 = 0 then 0 else 1)"
proof (cases var)
  case Cmd_c
  with assms have "fst (run_on_pipe k l r s) = Returns (WEXITSTATUS st2 = 0)"
    by (intro run_on_pipe_run [where ?r2.0 = r2]) (simp_all add: engine_def)
  then obtain s' where "run_on_pipe k l r s = (Returns (WEXITSTATUS st2 = 0), s')"
    by (auto dest: fst_eqD)
  with Cmd_c show ?thesis by (simp add: engine_def)
next
  case Part_000
  with assms have "fst (p0_run_on_pipe k l r s) = Returns (WEXITSTATUS st2 = 0)"
    by (intro p0_run_on_pipe_run [where ?r2.0 = r2]) (simp_all add: engine_def)
  then obtain s' where "p0_run_on_pipe k l r s = (Returns (WEXITSTATUS st2 = 0), s')"
    by (auto dest: fst_eqD)
  with Part_000 show ?thesis by (simp add: engine_def)
qed

theorem pipe_status_witness:
  "WEXITSTATUS (exited_with 2) = 2 \<and>
   fst (engine Cmd_c demo (Command OP_PIPE None (leaf ''true'' []) (leaf ''two'' [])) boot)
     = Returns 1"
proof -
  let ?s0 = "snd (snd (sys_pipe demo boot))"
  let ?c1 = "snd (parse_command demo (leaf ''true'' []) (writer_end (3, 4) (child_of ?s0 1001 2)))"
  let ?c2 = "snd (parse_command demo (leaf ''two'' [])
                (reader_end (3, 4) (child_of (after_child 1001 0 ?c1 ?s0) 1003 4)))"
  have h1: "sys_pipe demo boot = (0, (3, 4), ?s0)"
    by (rule prod_eqI, code_simp, rule prod_eqI, code_simp, simp)
  have h3: "k_fork demo (world ?s0) = Some (1001, 2)" by code_simp
  have h4: "engine Cmd_c demo (leaf ''true'' []) (writer_end (3, 4) (child_of ?s0 1001 2))
              = (Returns 0, ?c1)"
    by (rule prod_eqI, code_simp, simp add: engine_def)
  have h5: "exit_of (Returns 0) = Some 0" by code_simp
  have h6: "k_fork demo (world ?c1) = Some (1003, 4)" by code_simp
  have h8: "engine Cmd_c demo (leaf ''two'' [])
              (reader_end (3, 4) (child_of (after_child 1001 0 ?c1 ?s0) 1003 4)) = (Returns 2, ?c2)"
    by (rule prod_eqI, code_simp, simp add: engine_def)
  have h9: "exit_of (Returns 2) = Some (exited_with 2)" by (simp add: exit_of_def)
  have w: "WEXITSTATUS (exited_with 2) = 2" by code_simp
  from pipe_status [OF h1 _ h3 h4 h5 h6 _ h8 h9, of None] w
  show ?thesis by simp
qed

text \<open>Whatever happens, a Pipe node that returns returns 0 or 1.\<close>

lemma pipe_status_range:
  "fst (engine var k (Command OP_PIPE sc l r) s) = Returns v \<Longrightarrow> v = 0 \<or> v = 1"
  by (cases var) (auto simp: engine_def split: prod.splits outcome.splits if_splits)

section \<open>Waiting for the branches of a parallel node\<close>

text \<open>
  Claim C3, as the code has it. \<^verbatim>\<open>run_in_parallel\<close> of \<^verbatim>\<open>part_000\<close> returns right after the
  second fork: \<^verbatim>\<open>true & two\<close> yields status 0 while both children are still in the table
  of children that were not waited for.
\<close>

theorem parallel_counterexample:
  "fst (p0_parse_command demo par_true_two boot) = Returns 0 \<and>
   kids (snd (p0_parse_command demo par_true_two boot))
     = [(1002, exited_with 2), (1000, exited_with 0)] \<and>
   kids boot = []"
  by (intro conjI; code_simp)

text \<open>
  Claim C3, amended to the variant \<^verbatim>\<open>src/cmd.c\<close>: whenever a Parallel node reports
  completion (status 0), both children were created, the last two things the
  orchestrator did were \<^verbatim>\<open>waitpid\<close> on the first and on the second child, and no child
  it created is left in the table.
\<close>

theorem parallel_waits:
  assumes "parse_command k (Command OP_PARALLEL sc l r) s = (Returns 0, s')"
  shows "\<exists>pid1 w1 r1 c1 st1 pid2 w2 r2 c2 a b.
           k_fork k (world s) = Some (pid1, w1) \<and>
           parse_command k l (child_of s pid1 w1) = (r1, c1) \<and>
           exit_of r1 = Some st1 \<and>
           k_fork k (world c1) = Some (pid2, w2) \<and>
           parse_command k r (child_of (after_child pid1 st1 c1 s) pid2 w2) = (r2, c2) \<and>
           trace s' = trace c2 @ [Waited pid1 a, Waited pid2 b] \<and>
           kids s' = kids s"
proof -
  from assms have T: "run_in_parallel k l r s = (Returns True, s')"
    by (simp split: prod.splits outcome.splits if_splits)
  then obtain pid1 w1 r1 c1 st1 pid2 w2 r2 c2 st2 where run:
    "k_fork k (world s) = Some (pid1, w1)"
    "parse_command k l (child_of s pid1 w1) = (r1, c1)"
    "exit_of r1 = Some st1"
    "k_fork k (world c1) = Some (pid2, w2)"
    "parse_command k r (child_of (after_child pid1 st1 c1 s) pid2 w2) = (r2, c2)"
    "exit_of r2 = Some st2"
    by (rule run_in_parallel_True)
  from run_in_parallel_run [OF run] T
  have s': "s' = s\<lparr>trace := trace c2 @ (if pid1 = pid2 then [Waited pid1 st2, Waited pid2 st1]
                                     else [Waited pid1 st1, Waited pid2 st2]),
              world := world c2\<rparr>" by simp
  have "trace s' = trace c2 @ [Waited pid1 (if pid1 = pid2 then st2 else st1),
                               Waited pid2 (if pid1 = pid2 then st1 else st2)]"
    and "kids s' = kids s"
    by (simp_all add: s')
  with run show ?thesis by blast
qed

theorem parallel_waits_witness:
  "fst (parse_command demo par_true_two boot) = Returns 0 \<and>
   kids (snd (parse_command demo par_true_two boot)) = []"
proof -
  have f: "fst (parse_command demo par_true_two boot) = Returns 0" by code_simp
  then have h: "parse_command demo (Command OP_PARALLEL None (leaf ''true'' []) (leaf ''two'' [])) boot
             = (Returns 0, snd (parse_command demo par_true_two boot))"
    unfolding par_true_two_def [symmetric]
    by (simp add: prod_eq_iff del: parse_command.simps)
  from parallel_waits [OF h]
  have "kids (snd (parse_command demo par_true_two boot)) = kids boot" by blast
  with f show ?thesis by (simp add: boot_def del: parse_command.simps)
qed

section \<open>The conditional operators\<close>

text \<open>
  Claim C9, in both variants: when the left subtree returns \<open>v\<close>, a ConditionalNonZero
  node is the evaluation of the right subtree (in the state the left one left) if
  \<open>v \<noteq> 0\<close> and is \<open>v\<close> with nothing else done otherwise; a ConditionalZero node is the
  evaluation of the right subtree if \<open>v = 0\<close> and is \<open>v\<close> otherwise.
\<close>

theorem conditional_semantics:
  assumes "engine var k l s = (Returns v, s1)"
  shows "engine var k (Command OP_CONDITIONAL_NZERO sc l r) s =
           (if v \<noteq> 0 then engine var k r s1 else (Returns v, s1)) \<and>
         engine var k (Command OP_CONDITIONAL_ZERO sc l r) s =
           (if v = 0 then engine var k r s1 else (Returns v, s1))"
  using assms by (cases var) (simp_all add: engine_def)

theorem conditional_semantics_witness:
  "fst (engine Cmd_c demo (Command OP_CONDITIONAL_NZERO None (leaf ''false'' []) (leaf ''two'' [])) boot)
     = Returns 2 \<and>
   fst (engine Cmd_c demo (Command OP_CONDITIONAL_ZERO None (leaf ''false'' []) (leaf ''two'' [])) boot)
     = Returns 1"
proof -
  let ?s1 = "snd (engine Cmd_c demo (leaf ''false'' []) boot)"
  have h: "engine Cmd_c demo (leaf ''false'' []) boot = (Returns 1, ?s1)"
    by (rule prod_eqI, code_simp, simp)
  have r: "fst (engine Cmd_c demo (leaf ''two'' []) ?s1) = Returns 2" by code_simp
  from conditional_semantics [OF h, of None "leaf ''two'' []"] r
  show ?thesis by simp
qed

section \<open>A program that cannot be executed\<close>

text \<open>
  Claim C4, as the code has it. In \<^verbatim>\<open>part_000\<close> the child calls \<^verbatim>\<open>perror\<close> and
  \<^verbatim>\<open>exit(EXIT_FAILURE)\<close>: for the unknown program \<^verbatim>\<open>nosuch\<close> the executor reports 1, not 127.
\<close>

theorem exec_failure_counterexample:
  "fst (p0_parse_simple demo (Some (simple ''nosuch'' [])) boot) = Returns 1 \<and>
   trace (snd (p0_parse_simple demo (Some (simple ''nosuch'' [])) boot))
     = [Forked 1000, Perror ''nosuch'', Waited 1000 (exited_with 1)]"
  by (rule conjI; code_simp)

text \<open>
  Claim C4, amended to the variant \<^verbatim>\<open>src/cmd.c\<close>: when the verb is neither a built-in nor
  an assignment, the redirections succeed, the child is created and \<^verbatim>\<open>execvp\<close> fails
  in it, \<^verbatim>\<open>parse_simple\<close> returns 127 to its caller, and the child has printed
  \<^verbatim>\<open>Execution failed for '<verb>'\<close>.
\<close>

theorem exec_failure_is_127:
  assumes "verb sc = Some v"
    and "w_text v \<noteq> ''exit''" and "w_text v \<noteq> ''quit''" and "w_text v \<noteq> ''cd''"
    and "CHR ''='' \<notin> set (w_text v)"
    and "duplicate_file_descriptors st = ((a, b, c), st1)"
    and "apply_redirections k sc st1 = (r, st2)" and "r \<noteq> - 1"
    and "k_fork k (world st2) = Some (pid, w)"
    and "k_exec k w (fdt st2) (cwd st2) (env st2) (w_text v) (get_argv sc) = None"
  shows "\<exists>st'. parse_simple k (Some sc) st = (Returns 127, st') \<and>
           Printf (''Execution failed for '' @ [CHR 39] @ w_text v @ [CHR 39, CHR 10])
             \<in> set (trace st')"
proof -
  let ?msg = "''Execution failed for '' @ [CHR 39] @ w_text v @ [CHR 39, CHR 10]"
  let ?ch = "printf ?msg (child_of st2 pid w)"
  let ?st4 = "log (Waited pid (exited_with 127)) (st2\<lparr>trace := trace ?ch, world := world ?ch\<rparr>)"
  have child: "exec_child k (w_text v) (get_argv sc) (child_of st2 pid w) = (exited_with 127, ?ch)"
    using assms(10) by (simp add: exec_child_def child_of_def log_def)
  have "parse_simple k (Some sc) st =
          (Returns (WEXITSTATUS (exited_with 127)), restore_file_descriptors a b c ?st4)"
    by (rule parse_simple_external [OF assms(1-9) child])
  then have ps: "parse_simple k (Some sc) st = (Returns 127, restore_file_descriptors a b c ?st4)"
    by (simp add: WEXITSTATUS_def exited_with_def)
  have "Printf ?msg \<in> set (trace ?st4)"
    by (simp add: printf_def log_def)
  with restore_trace [of ?st4 a b c]
  have "Printf ?msg \<in> set (trace (restore_file_descriptors a b c ?st4))"
    by blast
  with ps show ?thesis by blast
qed

theorem exec_failure_is_127_witness:
  "fst (parse_simple demo (Some (simple ''nosuch'' [])) boot) = Returns 127"
proof -
  let ?sc = "simple ''nosuch'' []"
  let ?st1 = "snd (duplicate_file_descriptors boot)"
  let ?st2 = "snd (apply_redirections demo ?sc ?st1)"
  have h1: "verb ?sc = Some (word_at 1 ''nosuch'')" by (simp add: simple_def)
  have h2: "w_text (word_at 1 ''nosuch'') \<noteq> ''exit''" "w_text (word_at 1 ''nosuch'') \<noteq> ''quit''"
    "w_text (word_at 1 ''nosuch'') \<noteq> ''cd''" "CHR ''='' \<notin> set (w_text (word_at 1 ''nosuch''))"
    by (simp_all add: word_at_def)
  have h6: "duplicate_file_descriptors boot = ((3, 4, 5), ?st1)"
    by (rule prod_eqI, code_simp, simp)
  have h7: "apply_redirections demo ?sc ?st1 = (0, ?st2)"
    by (rule prod_eqI, code_simp, simp)
  have h9: "k_fork demo (world ?st2) = Some (1000, 1)" by code_simp
  have h10: "k_exec demo 1 (fdt ?st2) (cwd ?st2) (env ?st2) (w_text (word_at 1 ''nosuch''))
               (get_argv ?sc) = None"
    by (simp add: demo_def word_at_def)
  from exec_failure_is_127 [OF h1 h2 h6 h7 _ h9 h10]
  show ?thesis by auto
qed

text \<open>
  The same path in \<^verbatim>\<open>part_000\<close>, in general: under the same conditions the executor
  returns 1, and the diagnostic is the one of \<^verbatim>\<open>perror\<close> on the verb.
\<close>

lemma p0_exec_failure_is_1:
  assumes "verb sc = Some v"
    and "w_text v \<noteq> ''exit''" and "w_text v \<noteq> ''quit''" and "w_text v \<noteq> ''cd''"
    and "CHR ''='' \<notin> set (w_text v)"
    and "p0_duplicate_file_descriptors st = ((a, b, c), st1)"
    and "p0_apply_redirections k sc st1 = (r, st2)" and "r \<noteq> - 1"
    and "k_fork k (world st2) = Some (pid, w)"
    and "k_exec k w (fdt st2) (cwd st2) (env st2) (w_text v) (get_argv sc) = None"
  shows "\<exists>st'. p0_parse_simple k (Some sc) st = (Returns 1, st') \<and>
           Perror (w_text v) \<in> set (trace st')"
proof -
  let ?ch = "perror (w_text v) (child_of st2 pid w)"
  let ?st4 = "log (Waited pid (exited_with 1)) (st2\<lparr>trace := trace ?ch, world := world ?ch\<rparr>)"
  have child: "p0_exec_child k (w_text v) (get_argv sc) (child_of st2 pid w) = (exited_with 1, ?ch)"
    using assms(10) by (simp add: p0_exec_child_def child_of_def log_def)
  have "p0_parse_simple k (Some sc) st =
          (Returns (WEXITSTATUS (exited_with 1)), p0_restore_file_descriptors a b c ?st4)"
    by (rule p0_parse_simple_external [OF assms(1-9) child])
  then have ps: "p0_parse_simple k (Some sc) st = (Returns 1, p0_restore_file_descriptors a b c ?st4)"
    by (simp add: WEXITSTATUS_def exited_with_def)
  have "Perror (w_text v) \<in> set (trace (p0_restore_file_descriptors a b c ?st4))"
    by (simp add: p0_restore_trace perror_def log_def)
  with ps show ?thesis by blast
qed

section \<open>The built-in \<^verbatim>\<open>cd\<close>\<close>

text \<open>
  Claim C5, as the code has it. In \<^verbatim>\<open>part_000\<close>, \<^verbatim>\<open>shell_cd\<close> returns \<^verbatim>\<open>true\<close> when it is
  given no argument or more than one: \<^verbatim>\<open>cd\<close> and \<^verbatim>\<open>cd /tmp /\<close> report status 0.
\<close>

theorem cd_counterexample:
  "fst (p0_parse_simple demo (Some (simple ''cd'' [])) boot) = Returns 0 \<and>
   fst (p0_parse_simple demo (Some (simple ''cd'' [''/tmp'', ''/''])) boot) = Returns 0"
  by (rule conjI; code_simp)

text \<open>
  Claim C5, amended. In \<^verbatim>\<open>src/cmd.c\<close>, \<^verbatim>\<open>shell_cd\<close> succeeds only if it is given exactly
  one argument and \<^verbatim>\<open>chdir\<close> to it succeeds; with no argument or more than one it
  fails and changes nothing, where \<^verbatim>\<open>part_000\<close> succeeds and changes nothing. In both
  variants, with one argument: a failing \<^verbatim>\<open>chdir\<close> is reported with \<^verbatim>\<open>perror\<close>, the
  built-in fails and the working directory stays; a successful one sets the working
  directory. In \<^verbatim>\<open>src/cmd.c\<close> the status of the command is 0 if \<^verbatim>\<open>shell_cd\<close> succeeded and
  1 if not.
\<close>

theorem cd_contract:
  "(shell_cd k dir s = (True, s') \<longrightarrow>
      (\<exists>d. dir = [d] \<and> k_chdir k (world s) (cwd s) (w_text d) = Some (cwd s')))
   \<and> (length dir \<noteq> 1 \<longrightarrow> shell_cd k dir s = (False, s) \<and> p0_shell_cd k dir s = (True, s))
   \<and> (k_chdir k (world s) (cwd s) (w_text d) = None \<longrightarrow>
        shell_cd k [d] s = (False, perror ''cd'' s) \<and>
        p0_shell_cd k [d] s = (False, perror ''chdir'' s) \<and>
        (\<forall>m. cwd (perror m s) = cwd s \<and> trace (perror m s) = trace s @ [Perror m]))
   \<and> (k_chdir k (world s) (cwd s) (w_text d) = Some new \<longrightarrow>
        shell_cd k [d] s = (True, s\<lparr>cwd := new\<rparr>) \<and> p0_shell_cd k [d] s = (True, s\<lparr>cwd := new\<rparr>))
   \<and> (verb sc = Some v \<and> w_text v = ''cd'' \<and>
        duplicate_file_descriptors st = ((a, b, c), st1) \<and>
        apply_redirections k sc st1 = (r, st2) \<and> r \<noteq> - 1 \<longrightarrow>
        fst (parse_simple k (Some sc) st)
          = Returns (if fst (shell_cd k (params sc) st2) then 0 else 1))"
  using shell_cd_True [of k dir s s'] shell_cd_args [of dir k s] shell_cd_fail [of k s d]
    shell_cd_ok [of k s d new] perror_frame [of _ s]
    parse_simple_cd [of sc v st a b c st1 k r st2]
  by (simp del: parse_command.simps)

theorem cd_contract_witness:
  "shell_cd demo [] boot = (False, boot) \<and>
   shell_cd demo [word_at 10 ''/tmp'', word_at 11 ''/''] boot = (False, boot) \<and>
   shell_cd demo [word_at 10 ''/nope''] boot = (False, perror ''cd'' boot) \<and>
   shell_cd demo [word_at 10 ''/tmp''] boot = (True, boot\<lparr>cwd := ''/tmp''\<rparr>) \<and>
   fst (parse_simple demo (Some (simple ''cd'' [''/tmp''])) boot) = Returns 0"
proof -
  let ?sc = "simple ''cd'' [''/tmp'']"
  let ?st1 = "snd (duplicate_file_descriptors boot)"
  let ?st2 = "snd (apply_redirections demo ?sc ?st1)"
  have a1: "length ([] :: word_t list) \<noteq> 1" by simp
  have a2: "length [word_at 10 ''/tmp'', word_at 11 ''/''] \<noteq> 1" by simp
  have a3: "k_chdir demo (world boot) (cwd boot) (w_text (word_at 10 ''/nope'')) = None"
    by (simp add: demo_def word_at_def)
  have a4: "k_chdir demo (world boot) (cwd boot) (w_text (word_at 10 ''/tmp'')) = Some ''/tmp''"
    by (simp add: demo_def word_at_def)
  have h1: "verb ?sc = Some (word_at 1 ''cd'')" by (simp add: simple_def)
  have h2: "w_text (word_at 1 ''cd'') = ''cd''" by (simp add: word_at_def)
  have h3: "duplicate_file_descriptors boot = ((3, 4, 5), ?st1)"
    by (rule prod_eqI, code_simp, simp)
  have h4: "apply_redirections demo ?sc ?st1 = (0, ?st2)"
    by (rule prod_eqI, code_simp, simp)
  have h5: "fst (shell_cd demo (params ?sc) ?st2)" by code_simp
  from cd_contract [of demo "[]" boot boot undefined undefined ?sc "word_at 1 ''cd''" boot 3 4 5
      ?st1 0 ?st2] a1 h1 h2 h3 h4 h5
  have c1: "shell_cd demo [] boot = (False, boot)"
    and c5: "fst (parse_simple demo (Some ?sc) boot) = Returns 0"
    by simp_all
  from cd_contract [of demo "[word_at 10 ''/tmp'', word_at 11 ''/'']" boot] a2
  have c2: "shell_cd demo [word_at 10 ''/tmp'', word_at 11 ''/''] boot = (False, boot)"
    by blast
  from cd_contract [of demo _ boot _ "word_at 10 ''/nope''"] a3
  have c3: "shell_cd demo [word_at 10 ''/nope''] boot = (False, perror ''cd'' boot)"
    by blast
  from cd_contract [of demo _ boot _ "word_at 10 ''/tmp''" "''/tmp''"] a4
  have c4: "shell_cd demo [word_at 10 ''/tmp''] boot = (True, boot\<lparr>cwd := ''/tmp''\<rparr>)"
    by blast
  from c1 c2 c3 c4 c5 show ?thesis by blast
qed

section \<open>Restoring the standard streams\<close>

text \<open>
  Claim C2 at the input \<^verbatim>\<open>true < a > /nodir/x\<close>, in \<^verbatim>\<open>src/cmd.c\<close>: the input redirection is
  applied, the output target cannot be opened, and \<^verbatim>\<open>parse_simple\<close> returns \<open>-1\<close> without
  calling \<^verbatim>\<open>restore_file_descriptors\<close>. Descriptor 0 stays bound to the file \<^verbatim>\<open>a\<close> and
  the three duplicates stay open in 3, 4 and 5. In \<^verbatim>\<open>part_000\<close> the assignment \<^verbatim>\<open>A=b\<close>
  returns with the three duplicates left open as well.
\<close>

theorem redirection_failure_skips_restore:
  "fst (parse_simple demo (Some in_ok_out_bad) boot) = Returns (- 1) \<and>
   fdt (snd (parse_simple demo (Some in_ok_out_bad) boot))
     = [Some 100, Some 1, Some 2, Some 0, Some 1, Some 2, None, None] \<and>
   fdt boot = [Some 0, Some 1, Some 2, None, None, None, None, None] \<and>
   fst (p0_parse_simple demo (Some (simple ''A=b'' [])) boot) = Returns 0 \<and>
   fdt (snd (p0_parse_simple demo (Some (simple ''A=b'' [])) boot))
     = [Some 0, Some 1, Some 2, Some 0, Some 1, Some 2, None, None]"
  by (intro conjI; code_simp)

text \<open>
  The other paths of \<^verbatim>\<open>src/cmd.c\<close> do restore. When the three streams are open, the
  three duplicates could be made and the redirections did not fail, every path on
  which \<^verbatim>\<open>parse_simple\<close> returns (\<^verbatim>\<open>cd\<close>, assignment, failed fork, external command)
  leaves the descriptor table exactly as it was before the call.
\<close>

lemma parse_simple_restores:
  assumes so: "streams_open st"
    and d: "duplicate_file_descriptors st = ((a, b, c), st1)"
    and ok: "a \<noteq> - 1" "b \<noteq> - 1" "c \<noteq> - 1"
    and ar: "apply_redirections k sc st1 = (r0, st2)" and r0: "r0 \<noteq> - 1"
    and res: "parse_simple k (Some sc) st = (Returns v, st')"
  shows "fdt st' = fdt st"
proof -
  note R = restore_after_redirections [OF so d ok ar]
  show ?thesis
  proof (cases "verb sc")
    case None
    from parse_simple_no_verb [OF None d ar r0] res show ?thesis by simp
  next
    case (Some w)
    consider (ex) "w_text w = ''exit'' \<or> w_text w = ''quit''"
      | (cd) "w_text w = ''cd''"
      | (asg) "w_text w \<noteq> ''exit''" "w_text w \<noteq> ''quit''" "w_text w \<noteq> ''cd''"
          "CHR ''='' \<in> set (w_text w)"
      | (ext) "w_text w \<noteq> ''exit''" "w_text w \<noteq> ''quit''" "w_text w \<noteq> ''cd''"
          "CHR ''='' \<notin> set (w_text w)"
      by fast
    then show ?thesis
    proof cases
      case ex
      from parse_simple_builtin_exit [OF Some ex d ar r0] res show ?thesis by simp
    next
      case cd
      from parse_simple_cd [OF Some cd d ar r0] res
      have "st' = restore_file_descriptors a b c (snd (shell_cd k (params sc) st2))" by simp
      then show ?thesis by (simp add: R fdt_shell_cd)
    next
      case asg
      obtain o3 st3 where p: "parse_environment_variable (Some (w_text w)) st2 = (o3, st3)"
        by (cases "parse_environment_variable (Some (w_text w)) st2")
      have f3: "fdt st3 = fdt st2"
        using fdt_parse_environment_variable [of "Some (w_text w)" st2] p by simp
      show ?thesis
      proof (cases "o3 = Returns ()")
        case True
        with p have p': "parse_environment_variable (Some (w_text w)) st2 = (Returns (), st3)"
          by simp
        from parse_simple_assign [OF Some asg d ar r0 p'] res
        have "st' = restore_file_descriptors a b c st3" by simp
        then show ?thesis by (simp add: R f3)
      next
        case False
        with p have p': "fst (parse_environment_variable (Some (w_text w)) st2) \<noteq> Returns ()"
          by simp
        from parse_simple_assign_undefined [OF Some asg d ar r0 p'] res show ?thesis by simp
      qed
    next
      case ext
      show ?thesis
      proof (cases "k_fork k (world st2)")
        case None
        from parse_simple_fork_failure [OF Some ext d ar r0 None] res
        have "st' = perror ''fork'' (restore_file_descriptors a b c st2)" by simp
        then show ?thesis by (simp add: R fdt_perror)
      next
        case f: (Some pw)
        obtain pid w' where pw: "pw = (pid, w')" by (cases pw)
        from f pw have f': "k_fork k (world st2) = Some (pid, w')" by simp
        obtain cstatus ch where
          x: "exec_child k (w_text w) (get_argv sc) (child_of st2 pid w') = (cstatus, ch)"
          by (cases "exec_child k (w_text w) (get_argv sc) (child_of st2 pid w')")
        from parse_simple_external [OF Some ext d ar r0 f' x] res
        have "st' = restore_file_descriptors a b c
                      (log (Waited pid cstatus) (st2\<lparr>trace := trace ch, world := world ch\<rparr>))"
          by simp
        then show ?thesis by (simp add: R fdt_log)
      qed
    qed
  qed
qed

section \<open>Failures of the resolver\<close>

text \<open>
  Claim C6 at the input \<^verbatim>\<open>true 2> /nodir/e > o\<close>: the error target cannot be opened,
  \<^verbatim>\<open>exit_status\<close> becomes \<open>-1\<close>, the output redirection is attempted all the same and
  succeeds, and its result 0 overwrites \<^verbatim>\<open>exit_status\<close>: the resolver of both variants
  reports success although an open failed.
\<close>

theorem error_open_failure_is_swallowed:
  "fst (apply_redirections demo err_bad_out_ok boot) = 0 \<and>
   trace (snd (apply_redirections demo err_bad_out_ok boot))
     = [Open ''/nodir/e'' {O_TRUNC, O_WRONLY, O_CREAT} (- 1), Perror ''open'',
        Open ''o'' {O_TRUNC, O_WRONLY, O_CREAT} 3] \<and>
   fst (p0_apply_redirections demo err_bad_out_ok boot) = 0"
  by (intro conjI; code_simp)

text \<open>
  The part of the claim about the input holds in both variants: when the input
  cannot be redirected, the resolver returns \<open>-1\<close> in the state that redirection left
  and does nothing more.
\<close>

lemma input_failure_short_circuits:
  assumes "inp sc = Some w" and "fst (redirect k (w_text w) STDIN_FILENO 0 st) = - 1"
  shows "apply_redirections k sc st = redirect k (w_text w) STDIN_FILENO 0 st"
  using assms
  by (simp add: apply_redirections_def get_word_def split_beta prod_eq_iff)

lemma p0_input_failure_short_circuits:
  assumes "inp sc = Some w" and "fst (p0_redirect_input k (w_text w) st) = - 1"
  shows "p0_apply_redirections k sc st = (- 1, snd (p0_redirect_input k (w_text w) st))"
  using assms
  by (simp add: p0_apply_redirections_def get_word_def split_beta)

text \<open>
  Two more failures that are lost. In \<^verbatim>\<open>src/cmd.c\<close>, \<^verbatim>\<open>redirect\<close> does not look at the
  result of \<^verbatim>\<open>dup_fd\<close>: with room for two descriptors, \<^verbatim>\<open>2> e\<close> opens \<^verbatim>\<open>e\<close>, fails to bind
  it to descriptor 2 and reports success. In \<^verbatim>\<open>part_000\<close>, the branch for a shared target
  stores the result in a local variable of its own: \<^verbatim>\<open>&> /nodir/f\<close> fails to open and
  reports success.
\<close>

lemma other_swallowed_failures:
  "fst (apply_redirections demo ((simple ''true'' [])\<lparr>err := Some (word_at 3 ''e'')\<rparr>) two_slots) = 0 \<and>
   trace (snd (apply_redirections demo ((simple ''true'' [])\<lparr>err := Some (word_at 3 ''e'')\<rparr>) two_slots))
     = [Open ''e'' {O_TRUNC, O_WRONLY, O_CREAT} 1, Perror ''dup2''] \<and>
   fst (p0_apply_redirections demo merged_bad boot) = 0 \<and>
   trace (snd (p0_apply_redirections demo merged_bad boot))
     = [Open ''/nodir/f'' {O_WRONLY, O_CREAT, O_TRUNC} (- 1), Perror ''open'']"
  by (intro conjI; code_simp)

section \<open>Assignments to environment variables\<close>

text \<open>
  Claim C7 at the verb \<^verbatim>\<open>A=b=c\<close>, in \<^verbatim>\<open>src/cmd.c\<close>: the second \<^verbatim>\<open>strtok_r\<close> stops at the
  second \<^verbatim>\<open>=\<close>, so the variable \<^verbatim>\<open>A\<close> is bound to \<^verbatim>\<open>b\<close> and not to \<^verbatim>\<open>b=c\<close>.
\<close>

theorem assignment_value_is_cut:
  "fst (parse_simple demo (Some (simple ''A=b=c'' [])) boot) = Returns 0 \<and>
   env (snd (parse_simple demo (Some (simple ''A=b=c'' [])) boot)) ''A'' = Some ''b''"
  by (intro conjI; code_simp)

text \<open>
  With an empty value (\<^verbatim>\<open>A=\<close>) the second \<^verbatim>\<open>strtok_r\<close> returns \<^verbatim>\<open>NULL\<close>, which is handed to
  \<^verbatim>\<open>setenv\<close>.
\<close>

lemma assignment_empty_value:
  "fst (parse_simple demo (Some (simple ''A='' [])) boot) = Undefined"
  by code_simp

section \<open>One target for output and error\<close>

text \<open>
  Claim C8, in both variants. Let the output and the error field hold the same word
  (the same address). Let \<open>i\<close> be the lowest free descriptor on entry, not 1 or 2 (so
  \<^verbatim>\<open>open\<close> does not return a descriptor that is to be rebound), in a table that has
  descriptors 0 to 2. Let the command have no input redirection, or one whose file can be
  opened for reading: \<open>tin\<close> is the call of \<^verbatim>\<open>open\<close> the input stage makes (none without an
  input redirection) and \<open>w0\<close> the world it leaves. Let the target be openable for writing
  with truncation. Then the resolver succeeds; after the input stage its only call of
  \<^verbatim>\<open>open\<close> is the one of the target, with \<^verbatim>\<open>O_WRONLY|O_CREAT|O_TRUNC\<close> whatever \<^verbatim>\<open>io_flags\<close>
  says; and descriptors 1 and 2 are bound to the file opened. With any other word in the
  error field, also one that resolves to the same string, the resolver calls \<^verbatim>\<open>open\<close>
  twice after the input stage.
\<close>

theorem merged_target:
  assumes "out sc = Some w" and "err sc = Some w'" and "w_addr w' = w_addr w"
    and "lowest_free (fdt st) = Some i" and "i \<noteq> 1" and "i \<noteq> 2" and "3 \<le> length (fdt st)"
    and "case inp sc of
           None \<Rightarrow> tin = [] \<and> w0 = world st
         | Some wi \<Rightarrow>
             tin = [Open (w_text wi) {O_RDONLY} (int i)] \<and>
             (\<exists>d0. k_open k (world st) (cwd st) (w_text wi) {O_RDONLY} = Some (d0, w0))"
    and "k_open k w0 (cwd st) (w_text w) {O_WRONLY, O_CREAT, O_TRUNC} = Some (d, wd)"
  shows "(\<exists>st'. resolver var k sc st = (0, st') \<and>
            trace st' = trace st @ tin @ [Open (w_text w) {O_WRONLY, O_CREAT, O_TRUNC} (int i)] \<and>
            fdt st' ! 1 = Some d \<and> fdt st' ! 2 = Some d)
         \<and> (\<forall>w2. w_addr w2 \<noteq> w_addr w \<longrightarrow>
              (\<exists>t. trace (snd (resolver var k (sc\<lparr>err := Some w2\<rparr>) st)) = trace st @ tin @ t \<and>
                    length (filter is_open t) = 2))"
proof -
  from assms(4,8) obtain st1
    where r: "resolver var k (sc\<lparr>out := None, err := None\<rparr>) st = (0, st1)"
      and lf: "lowest_free (fdt st1) = Some i" and len: "length (fdt st1) = length (fdt st)"
      and tr: "trace st1 = trace st @ tin" and wo: "world st1 = w0" and cw: "cwd st1 = cwd st"
    by (rule input_stage_ok)
  have z: "(0::int) \<noteq> - 1" by simp
  have l3: "3 \<le> length (fdt st1)" using len assms(7) by simp
  have op: "k_open k (world st1) (cwd st1) (w_text w) {O_WRONLY, O_CREAT, O_TRUNC} = Some (d, wd)"
    using assms(9) wo cw by simp
  from merged_after_input_stage [OF assms(1,2,3) r z lf assms(5,6) l3 op]
  show ?thesis unfolding tr append_assoc .
qed

theorem merged_target_witness:
  "(fst (resolver Cmd_c demo merged boot) = 0 \<and>
    trace (snd (resolver Cmd_c demo merged boot)) = [Open ''f'' {O_WRONLY, O_CREAT, O_TRUNC} 3] \<and>
    fdt (snd (resolver Cmd_c demo merged boot)) ! 1 = Some 100 \<and>
    fdt (snd (resolver Cmd_c demo merged boot)) ! 2 = Some 100 \<and>
    length (filter is_open (trace (snd (resolver Cmd_c demo same_text boot)))) = 2) \<and>
   (fst (resolver Part_000 demo merged boot) = 0 \<and>
    trace (snd (resolver Part_000 demo merged boot)) = [Open ''f'' {O_WRONLY, O_CREAT, O_TRUNC} 3] \<and>
    fdt (snd (resolver Part_000 demo merged boot)) ! 1 = Some 100 \<and>
    fdt (snd (resolver Part_000 demo merged boot)) ! 2 = Some 100 \<and>
    length (filter is_open (trace (snd (resolver Part_000 demo same_text boot)))) = 2) \<and>
   (fst (resolver Cmd_c demo merged_in boot) = 0 \<and>
    trace (snd (resolver Cmd_c demo merged_in boot))
      = [Open ''a'' {O_RDONLY} 3, Open ''f'' {O_WRONLY, O_CREAT, O_TRUNC} 3] \<and>
    fdt (snd (resolver Cmd_c demo merged_in boot)) ! 1 = Some 101 \<and>
    fdt (snd (resolver Cmd_c demo merged_in boot)) ! 2 = Some 101) \<and>
   (fst (resolver Part_000 demo merged_in boot) = 0 \<and>
    trace (snd (resolver Part_000 demo merged_in boot))
      = [Open ''a'' {O_RDONLY} 3, Open ''f'' {O_WRONLY, O_CREAT, O_TRUNC} 3] \<and>
    fdt (snd (resolver Part_000 demo merged_in boot)) ! 1 = Some 101 \<and>
    fdt (snd (resolver Part_000 demo merged_in boot)) ! 2 = Some 101)"
proof -
  let ?f = "word_at 3 ''f''"
  have o: "out merged = Some ?f" "err merged = Some ?f" "w_addr ?f = w_addr ?f"
    by (simp_all add: merged_def)
  have oi: "out merged_in = Some ?f" "err merged_in = Some ?f"
    by (simp_all add: merged_in_def merged_def)
  have lf: "lowest_free (fdt boot) = Some 3" by (simp add: boot_def)
  have n: "(3::nat) \<noteq> 1" "(3::nat) \<noteq> 2" by simp_all
  have len: "3 \<le> length (fdt boot)" by (simp add: boot_def)
  have i0: "case inp merged of
              None \<Rightarrow> [] = ([]::event list) \<and> (0::nat) = world boot
            | Some wi \<Rightarrow>
                [] = [Open (w_text wi) {O_RDONLY} (int 3)] \<and>
                (\<exists>d0. k_open demo (world boot) (cwd boot) (w_text wi) {O_RDONLY} = Some (d0, 0))"
    by (simp add: merged_def simple_def boot_def)
  have i1: "case inp merged_in of
              None \<Rightarrow> [Open ''a'' {O_RDONLY} (int 3)] = [] \<and> (1::nat) = world boot
            | Some wi \<Rightarrow>
                [Open ''a'' {O_RDONLY} (int 3)] = [Open (w_text wi) {O_RDONLY} (int 3)] \<and>
                (\<exists>d0. k_open demo (world boot) (cwd boot) (w_text wi) {O_RDONLY} = Some (d0, 1))"
    by (simp add: merged_in_def word_at_def demo_def boot_def)
  have t0: "k_open demo 0 (cwd boot) (w_text ?f) {O_WRONLY, O_CREAT, O_TRUNC} = Some (100, 1)"
    by (simp add: demo_def word_at_def)
  have t1: "k_open demo 1 (cwd boot) (w_text ?f) {O_WRONLY, O_CREAT, O_TRUNC} = Some (101, 2)"
    by (simp add: demo_def word_at_def)
  have st: "merged\<lparr>err := Some (word_at 4 ''f'')\<rparr> = same_text"
    by (simp add: merged_def same_text_def)
  have ne: "w_addr (word_at 4 ''f'') \<noteq> w_addr ?f"
    by (simp add: word_at_def)
  have tb: "trace boot = []" by (simp add: boot_def)
  have tx: "w_text ?f = ''f''" by (simp add: word_at_def)
  have a: "fst (resolver var demo merged boot) = 0 \<and>
      trace (snd (resolver var demo merged boot)) = [Open ''f'' {O_WRONLY, O_CREAT, O_TRUNC} 3] \<and>
      fdt (snd (resolver var demo merged boot)) ! 1 = Some 100 \<and>
      fdt (snd (resolver var demo merged boot)) ! 2 = Some 100 \<and>
      length (filter is_open (trace (snd (resolver var demo same_text boot)))) = 2" for var
  proof -
    from merged_target [OF o lf n len i0 t0, of var]
    have m: "(\<exists>st'. resolver var demo merged boot = (0, st') \<and>
                trace st' = [Open ''f'' {O_WRONLY, O_CREAT, O_TRUNC} 3] \<and>
                fdt st' ! 1 = Some 100 \<and> fdt st' ! 2 = Some 100)"
      and p: "\<forall>w2. w_addr w2 \<noteq> w_addr ?f \<longrightarrow>
                (\<exists>t. trace (snd (resolver var demo (merged\<lparr>err := Some w2\<rparr>) boot)) = t \<and>
                      length (filter is_open t) = 2)"
      by (simp_all add: tb tx)
    from p ne st have "length (filter is_open (trace (snd (resolver var demo same_text boot)))) = 2"
      by auto
    with m show ?thesis by auto
  qed
  have b: "fst (resolver var demo merged_in boot) = 0 \<and>
      trace (snd (resolver var demo merged_in boot))
        = [Open ''a'' {O_RDONLY} 3, Open ''f'' {O_WRONLY, O_CREAT, O_TRUNC} 3] \<and>
      fdt (snd (resolver var demo merged_in boot)) ! 1 = Some 101 \<and>
      fdt (snd (resolver var demo merged_in boot)) ! 2 = Some 101" for var
  proof -
    from merged_target [OF oi o(3) lf n len i1 t1, of var]
    have "\<exists>st'. resolver var demo merged_in boot = (0, st') \<and>
            trace st' = [Open ''a'' {O_RDONLY} 3, Open ''f'' {O_WRONLY, O_CREAT, O_TRUNC} 3] \<and>
            fdt st' ! 1 = Some 101 \<and> fdt st' ! 2 = Some 101"
      by (simp add: tb tx)
    then show ?thesis by auto
  qed
  from a [of Cmd_c] a [of Part_000] b [of Cmd_c] b [of Part_000] show ?thesis by blast
qed

text \<open>
  The hypothesis on \<open>i\<close> is needed: when descriptor 1 is closed on entry, \<^verbatim>\<open>open\<close> returns
  1, and the final \<^verbatim>\<open>close(fd)\<close> closes descriptor 1 again; both variants report success.
\<close>

lemma stdout_closed_on_entry:
  "fst (resolver Cmd_c demo merged (boot\<lparr>fdt := [Some 0, None, Some 2, None]\<rparr>)) = 0 \<and>
   fdt (snd (resolver Cmd_c demo merged (boot\<lparr>fdt := [Some 0, None, Some 2, None]\<rparr>)))
     = [Some 0, None, Some 100, None] \<and>
   fst (resolver Part_000 demo merged (boot\<lparr>fdt := [Some 0, None, Some 2, None]\<rparr>)) = 0 \<and>
   fdt (snd (resolver Part_000 demo merged (boot\<lparr>fdt := [Some 0, None, Some 2, None]\<rparr>)))
     = [Some 0, None, Some 100, None]"
  by (intro conjI; code_simp)

section \<open>Null pointers in \<^verbatim>\<open>src/cmd.c\<close>\<close>

text \<open>
  Claim C10: in \<^verbatim>\<open>src/cmd.c\<close>, \<^verbatim>\<open>parse_command\<close> on a null node and \<^verbatim>\<open>parse_simple\<close> on a
  null record return 0 and leave the state of the process (descriptors, directory,
  environment, children, trace, world) as it was.
\<close>

theorem null_is_success:
  "parse_command k Null s = (Returns 0, s) \<and> parse_simple k None s = (Returns 0, s)"
  by (simp add: parse_simple_def)

end
